theory Spec2Isabelle
  imports Complex_Main
begin

section \<open>Python strings and paths\<close>

text \<open>
  The provisioning script \<^verbatim>\<open>run.py\<close> is Python 2. Strings are byte strings,
  modelled as \<^typ>\<open>string\<close>; the helpers below are the string and path operations the
  script uses, written out.
\<close>

definition nl :: string where
  "nl = [CHR 0x0A]"

definition startswith :: "string \<Rightarrow> string \<Rightarrow> bool" where
  "startswith s p = (take (length p) s = p)"

definition endswith :: "string \<Rightarrow> string \<Rightarrow> bool" where
  "endswith s p = (length p \<le> length s \<and> drop (length s - length p) s = p)"

text \<open>\<open>py_in needle hay\<close> is Python's \<^verbatim>\<open>needle in hay\<close> on two strings: substring test.\<close>

fun py_in :: "string \<Rightarrow> string \<Rightarrow> bool" where
  "py_in n [] = (n = [])"
| "py_in n (c # cs) = (startswith (c # cs) n \<or> py_in n cs)"

text \<open>\<^verbatim>\<open>s.split(sep)\<close> for a one-character separator.\<close>

fun split_chr :: "char \<Rightarrow> string \<Rightarrow> string list" where
  "split_chr sep [] = [[]]"
| "split_chr sep (c # cs) =
     (if c = sep then [] # split_chr sep cs
      else (case split_chr sep cs of [] \<Rightarrow> [[c]] | p # ps \<Rightarrow> (c # p) # ps))"

text \<open>\<^verbatim>\<open>line.split('==')[0]\<close>: the text before the first \<^verbatim>\<open>==\<close>.\<close>

fun before_eqeq :: "string \<Rightarrow> string" where
  "before_eqeq (a # b # cs) =
     (if a = CHR ''='' \<and> b = CHR ''='' then [] else a # before_eqeq (b # cs))"
| "before_eqeq cs = cs"

definition is_space :: "char \<Rightarrow> bool" where
  "is_space c = (c \<in> set [CHR '' '', CHR 0x09, CHR 0x0A, CHR 0x0B, CHR 0x0C, CHR 0x0D])"

definition strip :: "string \<Rightarrow> string" where
  "strip s = rev (dropWhile is_space (rev (dropWhile is_space s)))"

definition lower_chr :: "char \<Rightarrow> char" where
  "lower_chr c =
     (let n = (of_char c :: nat) in if 65 \<le> n \<and> n \<le> 90 then char_of (n + 32) else c)"

definition lower :: "string \<Rightarrow> string" where
  "lower s = map lower_chr s"

text \<open>\<^verbatim>\<open>sep.join(xs)\<close>.\<close>

fun str_join :: "string \<Rightarrow> string list \<Rightarrow> string" where
  "str_join sep [] = []"
| "str_join sep [x] = x"
| "str_join sep (x # y # ys) = x @ sep @ str_join sep (y # ys)"

text \<open>\<^verbatim>\<open>f.readlines()\<close> on the contents of a file: lines keep their newline.\<close>

fun readlines :: "string \<Rightarrow> string list" where
  "readlines [] = []"
| "readlines (c # cs) =
     (if c = CHR 0x0A then [c] # readlines cs
      else (case readlines cs of [] \<Rightarrow> [[c]] | l # ls \<Rightarrow> (c # l) # ls))"

text \<open>\<^verbatim>\<open>os.path.join(a, b)\<close> of \<^verbatim>\<open>posixpath\<close>.\<close>

definition path_join :: "string \<Rightarrow> string \<Rightarrow> string" where
  "path_join a b =
     (if startswith b ''/'' then b
      else if a = [] \<or> endswith a ''/'' then a @ b
      else a @ ''/'' @ b)"

section \<open>The environment\<close>

text \<open>
  Exceptions of the script and of the libraries it calls. \<open>ErrorReturnCode\<close> is
  \<^verbatim>\<open>sh.ErrorReturnCode\<close> and carries \<^verbatim>\<open>e.stderr\<close>; \<open>SystemExit n\<close> is what
  \<^verbatim>\<open>exit(n)\<close> raises.
\<close>

datatype exn =
    ErrorReturnCode string
  | CommandNotFound string
  | IOError string
  | OSError string
  | ImportError
  | ValueError
  | IndexError
  | NotImplementedError string
  | Exception string
  | KeyboardInterrupt
  | SystemExit nat

datatype node = File string | Dir

text \<open>
  The state the script reads and writes directly: the process environment, the working
  directory, the file system (by absolute path) and what was printed (one entry per
  \<^verbatim>\<open>print\<close> statement).
\<close>

record world =
  pw_dir :: string
  environ :: "string \<rightharpoonup> string"
  cwd :: string
  fs :: "string \<rightharpoonup> node"
  write_protected :: "string set"
  stdout :: "string list"

text \<open>A Python computation: it returns a value or raises, and leaves a new state.\<close>

type_synonym 'a py = "world \<Rightarrow> (exn + 'a) \<times> world"

definition ret :: "'a \<Rightarrow> 'a py" where
  "ret x w = (Inr x, w)"

definition raise :: "exn \<Rightarrow> 'a py" where
  "raise e w = (Inl e, w)"

definition bnd :: "'a py \<Rightarrow> ('a \<Rightarrow> 'b py) \<Rightarrow> 'b py" where
  "bnd m f w = (case m w of (Inl e, w') \<Rightarrow> (Inl e, w') | (Inr x, w') \<Rightarrow> f x w')"

text \<open>\<^verbatim>\<open>try: body finally: fin\<close>: an exception of \<open>fin\<close> replaces the outcome of \<open>body\<close>.\<close>

definition try_finally :: "'a py \<Rightarrow> unit py \<Rightarrow> 'a py" where
  "try_finally body fin w =
     (case body w of (r, w1) \<Rightarrow>
        (case fin w1 of (Inl e, w2) \<Rightarrow> (Inl e, w2) | (Inr _, w2) \<Rightarrow> (r, w2)))"

definition py_print :: "string \<Rightarrow> unit py" where
  "py_print line w = (Inr (), w\<lparr>stdout := stdout w @ [line]\<rparr>)"

definition resolve :: "world \<Rightarrow> string \<Rightarrow> string" where
  "resolve w p = (if startswith p ''/'' then p else path_join (cwd w) p)"

definition exists :: "world \<Rightarrow> string \<Rightarrow> bool" where
  "exists w p = (fs w (resolve w p) \<noteq> None)"

definition chdir :: "string \<Rightarrow> unit py" where
  "chdir p w =
     (case fs w (resolve w p) of
        Some Dir \<Rightarrow> (Inr (), w\<lparr>cwd := resolve w p\<rparr>)
      | _ \<Rightarrow> (Inl (OSError p), w))"

text \<open>\<^verbatim>\<open>file(path, 'r').read()\<close>.\<close>

definition read_file :: "string \<Rightarrow> string py" where
  "read_file p w =
     (case fs w (resolve w p) of
        Some (File s) \<Rightarrow> (Inr s, w)
      | _ \<Rightarrow> (Inl (IOError p), w))"

text \<open>
  \<^verbatim>\<open>file(path, 'w')\<close> followed by writes that amount to \<open>s\<close>. The script only opens
  for writing a path it has just read, so the branch that creates a file is not reached
  from it.
\<close>

definition write_file :: "string \<Rightarrow> string \<Rightarrow> unit py" where
  "write_file p s w =
     (if resolve w p \<in> write_protected w then (Inl (IOError p), w)
      else (case fs w (resolve w p) of
              Some Dir \<Rightarrow> (Inl (IOError p), w)
            | _ \<Rightarrow> (Inr (), w\<lparr>fs := (fs w)(resolve w p \<mapsto> File s)\<rparr>)))"

text \<open>\<^verbatim>\<open>os.path.expanduser("~")\<close>.\<close>

definition expanduser_home :: "world \<Rightarrow> string" where
  "expanduser_home w =
     (let userhome = (case environ w ''HOME'' of Some h \<Rightarrow> h | None \<Rightarrow> pw_dir w);
          stripped = rev (dropWhile (\<lambda>c. c = CHR ''/'') (rev userhome))
      in if stripped = [] then ''/'' else stripped)"

section \<open>External collaborators\<close>

text \<open>
  Commands run through the \<^verbatim>\<open>sh\<close> library, downloads, \<^verbatim>\<open>execfile\<close> of a generated
  file and the other library calls are not code of the script. They are parameters of the
  model: a \<open>host\<close> gives each of them as a function of the state. A command may change
  anything in the state.

  \<open>runner\<close> is the value of \<^verbatim>\<open>self.sh\<close>: the \<^verbatim>\<open>sh\<close> module itself, or
  \<^verbatim>\<open>sh.sudo.bake("-E", "-u", user)\<close>. An argument is a string, a list of strings, Python's
  \<^verbatim>\<open>None\<close>, or the output of another command given as input (\<^verbatim>\<open>sh.grep(sh.cat(f), x)\<close>).
  The program name is the attribute as the script writes it (\<^verbatim>\<open>apt_get\<close>).
  \<open>sys_platform\<close> is \<^verbatim>\<open>sys.platform\<close> and \<open>mac_ver\<close> is \<^verbatim>\<open>platform.mac_ver()[0]\<close>:
  facts of the machine that no command changes.
\<close>

datatype runner = Sh | SudoAs "string option"

datatype arg = S string | L "string list" | NoneArg | Piped string

datatype kwarg = Kw_out_stdout | Kw_err_stdout | Kw_err_stderr | Kw_bg | Kw_iter

record host =
  sys_platform :: string
  mac_ver :: string
  sh_call :: "runner \<Rightarrow> string \<Rightarrow> arg list \<Rightarrow> kwarg list \<Rightarrow> string py"
  sh_which :: "string \<Rightarrow> world \<Rightarrow> string option"
  sh_wait :: "string \<Rightarrow> unit py"
  urlretrieve :: "string \<Rightarrow> string \<Rightarrow> unit py"
  execfile :: "string \<Rightarrow> unit py"
  listdir :: "string \<Rightarrow> world \<Rightarrow> exn + string list"
  mkdtemp :: "world \<Rightarrow> exn + string"
  import_sh :: "world \<Rightarrow> bool"
  load_source :: "string \<Rightarrow> world \<Rightarrow> exn + unit"
  py_float :: "string \<Rightarrow> exn + rat"

text \<open>
  \<^verbatim>\<open>try: body except sh.ErrorReturnCode as e: handler(e.stderr)\<close> and the bare
  \<^verbatim>\<open>try: body except: handler\<close>.
\<close>

definition except_ErrorReturnCode :: "'a py \<Rightarrow> (string \<Rightarrow> 'a py) \<Rightarrow> 'a py" where
  "except_ErrorReturnCode body handler w =
     (case body w of
        (Inl (ErrorReturnCode err), w') \<Rightarrow> handler err w'
      | r \<Rightarrow> r)"

definition except_all :: "'a py \<Rightarrow> 'a py \<Rightarrow> 'a py" where
  "except_all body handler w =
     (case body w of (Inl e, w') \<Rightarrow> handler w' | r \<Rightarrow> r)"

section \<open>Module-level functions\<close>

definition PROJECT_NAME :: string where
  "PROJECT_NAME = ''advocoders''"

definition PROJECT_GIT_REPO :: string where
  "PROJECT_GIT_REPO = ''git@github.com:chase-seibert/advocoders.git''"

definition HOST_NAMES :: string where
  "HOST_NAMES = ''advocoders.localhost.com''"

text \<open>
  The options dictionary: the three paths of \<^verbatim>\<open>get_options\<close>, the parsed command
  line (\<^verbatim>\<open>--force\<close> and \<^verbatim>\<open>--skip\<close> are strings, \<^verbatim>\<open>''\<close> by default), and the
  two keys \<^verbatim>\<open>run_steps\<close> adds. A key that is absent reads as \<open>None\<close>, as
  \<^verbatim>\<open>options.get\<close> does.
\<close>

record options =
  home_dir :: string
  working_directory :: string
  project_dir :: string
  force :: string
  skip :: string
  quiet :: bool
  os :: "string option"
  version :: "rat option"

definition get_options :: "world \<Rightarrow> string \<Rightarrow> string \<Rightarrow> bool \<Rightarrow> options" where
  "get_options w force_arg skip_arg quiet_arg =
     (let home = expanduser_home w in
      \<lparr>home_dir = home,
       working_directory = cwd w,
       project_dir = path_join (path_join home ''projects'') PROJECT_NAME,
       force = force_arg, skip = skip_arg, quiet = quiet_arg,
       os = None, version = None\<rparr>)"

definition make_temp_directory :: "host \<Rightarrow> string py" where
  "make_temp_directory h w =
     (case mkdtemp h w of
        Inl e \<Rightarrow> (Inl e, w)
      | Inr temp_dir \<Rightarrow>
          bnd (chdir temp_dir) (\<lambda>_. ret temp_dir) (w\<lparr>fs := (fs w)(temp_dir \<mapsto> Dir)\<rparr>))"

definition load_this_script_deps :: "host \<Rightarrow> unit py" where
  "load_this_script_deps h w =
     (if import_sh h w then (Inr (), w)
      else bnd (urlretrieve h ''https://raw.github.com/amoffat/sh/master/sh.py'' ''sh.py'')
             (\<lambda>_ w'. (load_source h ''sh.py'' w', w')) w)"

definition get_os_and_version :: "host \<Rightarrow> exn + (string \<times> rat option)" where
  "get_os_and_version h =
     (if sys_platform h = ''darwin'' then
        (case py_float h (str_join ''.'' (take 2 (split_chr (CHR ''.'') (mac_ver h)))) of
           Inl e \<Rightarrow> Inl e
         | Inr v \<Rightarrow> Inr (''osx'', Some v))
      else if sys_platform h = ''linux2'' then Inr (''linux'', None)
      else Inl (Exception (''Unsupported OS: '' @ sys_platform h)))"

definition get_regular_username :: "world \<Rightarrow> string option" where
  "get_regular_username w = environ w ''SUDO_USER''"

definition bash_config_file :: "options \<Rightarrow> exn + string" where
  "bash_config_file opts =
     (if os opts = Some ''linux'' then Inr (path_join (home_dir opts) ''.bashrc'')
      else if os opts = Some ''osx'' then Inr (path_join (home_dir opts) ''.bash_profile'')
      else Inl (NotImplementedError []))"

definition prepend_file :: "string \<Rightarrow> string \<Rightarrow> unit py" where
  "prepend_file file_path content =
     bnd (read_file file_path) (\<lambda>original_contents.
       write_file file_path ((content @ nl) @ original_contents))"

section \<open>Installation steps\<close>

text \<open>
  The classes that \<^verbatim>\<open>get_steps\<close> yields. The base classes \<^verbatim>\<open>InstallStep\<close>,
  \<^verbatim>\<open>InstallStepAsRoot\<close> and \<^verbatim>\<open>SetEnvironmentVariable\<close> are never instantiated;
  what a class inherits from them is written out in each method below.
\<close>

datatype step_cls =
    XCodeInstall
  | HomebrewInstall
  | BrewDependenciesInstall
  | VirtualEnvInstall
  | AptDependenciesInstall
  | UpdateHostsFile
  | GitClone
  | VirtualEnv
  | ProductionEnvironmentVariable
  | SetupDatabase
  | RunServerAlias
  | RunServer

text \<open>The class attribute \<^verbatim>\<open>root\<close>: true for the subclasses of \<^verbatim>\<open>InstallStepAsRoot\<close>.\<close>

fun root :: "step_cls \<Rightarrow> bool" where
  "root XCodeInstall = True"
| "root VirtualEnvInstall = True"
| "root AptDependenciesInstall = True"
| "root UpdateHostsFile = True"
| "root _ = False"

text \<open>A step object. The last two attributes are set by \<^verbatim>\<open>VirtualEnv.__init__\<close> only.\<close>

record step =
  step_class :: step_cls
  self_options :: options
  verbose_kwargs :: "kwarg list"
  self_sh :: runner
  activate_this :: string
  requirements_file :: string

text \<open>
  \<^verbatim>\<open>InstallStep.__init__\<close>. Reading the attribute \<^verbatim>\<open>sh.sudo\<close> resolves the program
  and raises \<^verbatim>\<open>CommandNotFound\<close> when there is none.
\<close>

definition InstallStep_init :: "host \<Rightarrow> options \<Rightarrow> step_cls \<Rightarrow> string \<Rightarrow> string \<Rightarrow> step py" where
  "InstallStep_init h opts c act req w =
     (let vk = (if quiet opts then [] else [Kw_out_stdout, Kw_err_stdout]) in
      if root c then
        (Inr \<lparr>step_class = c, self_options = opts, verbose_kwargs = vk, self_sh = Sh,
              activate_this = act, requirements_file = req\<rparr>, w)
      else
        (case sh_which h ''sudo'' w of
           None \<Rightarrow> (Inl (CommandNotFound ''sudo''), w)
         | Some _ \<Rightarrow>
             (Inr \<lparr>step_class = c, self_options = opts, verbose_kwargs = vk,
                   self_sh = SudoAs (get_regular_username w),
                   activate_this = act, requirements_file = req\<rparr>, w)))"

text \<open>\<^verbatim>\<open>step_cls(options)\<close>.\<close>

definition init :: "host \<Rightarrow> options \<Rightarrow> step_cls \<Rightarrow> step py" where
  "init h opts c =
     (if c = VirtualEnv then
        bnd (chdir (project_dir opts)) (\<lambda>_.
          InstallStep_init h opts c
            (path_join (project_dir opts) ''virtualenv/bin/activate_this.py'')
            (path_join (project_dir opts) ''requirements.txt''))
      else InstallStep_init h opts c [] [])"

definition opt_arg :: "string option \<Rightarrow> arg" where
  "opt_arg x = (case x of None \<Rightarrow> NoneArg | Some s \<Rightarrow> S s)"

definition run_virtualenv :: "host \<Rightarrow> string \<Rightarrow> arg list \<Rightarrow> kwarg list \<Rightarrow> string py" where
  "run_virtualenv h command args kwargs w =
     (let command_bin = sh_which h command w in
      sh_call h Sh ''sudo''
        ([S ''-E'', S ''-u'', opt_arg (get_regular_username w), opt_arg command_bin] @ args)
        kwargs w)"

fun display_name :: "step_cls \<Rightarrow> string" where
  "display_name XCodeInstall = ''XCodeInstall''"
| "display_name HomebrewInstall = ''HomebrewInstall''"
| "display_name BrewDependenciesInstall = ''BrewDependenciesInstall''"
| "display_name VirtualEnvInstall = ''VirtualEnvInstall''"
| "display_name AptDependenciesInstall = ''AptDependenciesInstall''"
| "display_name UpdateHostsFile = ''UpdateHostsFile''"
| "display_name GitClone = ''GitClone''"
| "display_name VirtualEnv = ''VirtualEnv''"
| "display_name ProductionEnvironmentVariable = ''ProductionEnvironmentVariable''"
| "display_name SetupDatabase = ''SetupDatabase''"
| "display_name RunServerAlias = ''RunServerAlias''"
| "display_name RunServer = ''RunServer''"

definition variable :: string where
  "variable = ''PRODUCTION''"

definition var_value :: string where
  "var_value = ''False''"

definition dq :: string where
  "dq = [CHR 0x22]"

definition sq :: string where
  "sq = [CHR 0x27]"

text \<open>The stripped docstring; \<^verbatim>\<open>SetEnvironmentVariable\<close> overrides the property.\<close>

fun display_doing :: "step_cls \<Rightarrow> string" where
  "display_doing XCodeInstall = ''Downloading and installing XCode command line tools''"
| "display_doing HomebrewInstall = ''Installing homebrew''"
| "display_doing BrewDependenciesInstall = ''Installing dependendies''"
| "display_doing VirtualEnvInstall = ''Installing pip and virtualenv''"
| "display_doing AptDependenciesInstall = ''Installing apt dependencies''"
| "display_doing UpdateHostsFile = ''Updating hosts file''"
| "display_doing GitClone = ''Cloning the project repo''"
| "display_doing VirtualEnv = ''Setting up a virtualenv and installing python dependencies''"
| "display_doing ProductionEnvironmentVariable =
     ''Setting the '' @ variable @ '' environment variable''"
| "display_doing SetupDatabase = ''Creating a local sqlite database''"
| "display_doing RunServerAlias = ''Creating the bash alias''"
| "display_doing RunServer = ''Running local development web server''"

definition brew_dependencies :: "string list" where
  "brew_dependencies = [''libxml2'', ''libxslt'', ''libmagic'', ''postgresql'', ''libevent'']"

definition apt_dependencies :: "string list" where
  "apt_dependencies =
     [''libxml2-dev'', ''libxslt1-dev'', ''libmagic1'', ''python-virtualenv'', ''postgresql'',
      ''libpq-dev'', ''libevent-dev'']"

fun display_troubleshooting :: "step_cls \<Rightarrow> string option" where
  "display_troubleshooting XCodeInstall = Some
     (nl @ ''You can manually install the XCode Command Line Tools'' @ nl @
      ''by signing up for a free Apple ID and logging into'' @ nl @
      ''https://developer.apple.com/xcode/'' @ nl @ nl @
      ''Note: you don'' @ sq @ ''t need the full 2GB installer for Xcode;'' @ nl @
      ''the command line tools package is '' @ dq @ ''only'' @ dq @ '' 200MB.'' @ nl)"
| "display_troubleshooting HomebrewInstall = Some
     (nl @ ''You can install homebrew manually by running this:'' @ nl @ nl @
      ''ruby -e '' @ dq @ ''$(curl -fsSL https://raw.github.com/mxcl/homebrew/go)'' @ dq @ nl)"
| "display_troubleshooting BrewDependenciesInstall = Some
     (nl @ ''You can install the dependencies manually by running this:'' @ nl @ nl @
      ''brew install '' @ str_join '' '' brew_dependencies @ nl)"
| "display_troubleshooting AptDependenciesInstall = Some
     (nl @ ''You can install the dependencies manually by running this:'' @ nl @ nl @
      ''sudo apt-get install --yes '' @ str_join '' '' apt_dependencies @ nl)"
| "display_troubleshooting UpdateHostsFile = Some
     (nl @ ''You can update your hosts file manually with:'' @ nl @ nl @
      ''sudo sh -c '' @ sq @ ''echo '' @ dq @ ''127.0.0.1 '' @ HOST_NAMES @ dq @
      '' >> /etc/hosts'' @ sq @ nl)"
| "display_troubleshooting _ = None"

subsection \<open>The satisfaction probes\<close>

text \<open>
  \<^verbatim>\<open>sh.grep(sh.cat(path), pattern)\<close> through the step's runner. The inner command runs
  first, through the \<^verbatim>\<open>sh\<close> module itself. The property returns the command object,
  which the orchestrator tests for truth: it is true when its output is not empty.
\<close>

definition grep_cat :: "host \<Rightarrow> step \<Rightarrow> string \<Rightarrow> string \<Rightarrow> bool py" where
  "grep_cat h s path pattern =
     bnd (sh_call h Sh ''cat'' [S path] []) (\<lambda>contents.
     bnd (sh_call h (self_sh s) ''grep'' [Piped contents, S pattern] []) (\<lambda>out.
       ret (out \<noteq> [])))"

definition extract_pips :: "string list \<Rightarrow> string list" where
  "extract_pips lines = map (\<lambda>line. lower (strip (before_eqeq line))) lines"

definition pip :: "host \<Rightarrow> arg list \<Rightarrow> kwarg list \<Rightarrow> string py" where
  "pip h args kwargs = run_virtualenv h ''pip'' args kwargs"

definition activate :: "host \<Rightarrow> step \<Rightarrow> unit py" where
  "activate h s = execfile h (activate_this s)"

definition apt_run :: "host \<Rightarrow> step \<Rightarrow> string \<Rightarrow> kwarg list \<Rightarrow> string py" where
  "apt_run h s flag kwargs =
     sh_call h (self_sh s) ''apt_get'' [S ''install'', S flag, L apt_dependencies] kwargs"

text \<open>
  The property \<^verbatim>\<open>already_satisfied\<close> of each class. The module-level name
  \<^verbatim>\<open>options\<close> that \<^verbatim>\<open>SetupDatabase\<close> reads is the dictionary the main block passes to
  \<^verbatim>\<open>run_steps\<close>, the one every step holds as \<^verbatim>\<open>self.options\<close>.
\<close>

definition already_satisfied :: "host \<Rightarrow> step \<Rightarrow> bool py" where
  "already_satisfied h s =
     (case step_class s of
        XCodeInstall \<Rightarrow>
          except_all
            (bnd (sh_call h (self_sh s) ''make'' [S ''-version''] []) (\<lambda>out. ret (length out > 0)))
            (ret False)
      | HomebrewInstall \<Rightarrow>
          except_all
            (bnd (sh_call h (self_sh s) ''brew'' [S ''--version''] []) (\<lambda>out. ret (length out > 0)))
            (ret False)
      | BrewDependenciesInstall \<Rightarrow>
          bnd (sh_call h (self_sh s) ''brew'' [S ''list'', S ''-1''] []) (\<lambda>out.
            let installed = map strip (filter (\<lambda>i. i \<noteq> []) (split_chr (CHR 0x0A) out));
                not_installed = filter (\<lambda>d. d \<notin> set installed) (remdups brew_dependencies)
            in ret (not_installed = []))
      | VirtualEnvInstall \<Rightarrow>
          except_all
            (bnd (sh_call h (self_sh s) ''virtualenv'' [S ''--version''] [])
               (\<lambda>out. ret (length out > 0)))
            (ret False)
      | AptDependenciesInstall \<Rightarrow>
          bnd (apt_run h s ''--dry-run'' []) (\<lambda>out.
            ret (py_in ''0 upgraded, 0 newly installed'' out))
      | UpdateHostsFile \<Rightarrow>
          except_ErrorReturnCode (grep_cat h s ''/etc/hosts'' HOST_NAMES) (\<lambda>_. ret False)
      | GitClone \<Rightarrow> (\<lambda>w. (Inr (exists w (project_dir (self_options s))), w))
      | VirtualEnv \<Rightarrow>
          (\<lambda>w. if \<not> exists w (activate_this s) then (Inr False, w)
                else
                  bnd (activate h s) (\<lambda>_.
                  bnd (pip h [S ''freeze''] []) (\<lambda>frozen.
                  bnd (read_file (requirements_file s)) (\<lambda>requirements.
                    let items_installed = extract_pips (split_chr (CHR 0x0A) frozen);
                        items_required = extract_pips (readlines requirements);
                        items_diff = filter (\<lambda>i. i \<notin> set items_installed) (remdups items_required)
                    in ret (items_diff = [])))) w)
      | ProductionEnvironmentVariable \<Rightarrow>
          except_ErrorReturnCode
            (case bash_config_file (self_options s) of
               Inl e \<Rightarrow> raise e
             | Inr path \<Rightarrow> grep_cat h s path variable)
            (\<lambda>_. ret False)
      | SetupDatabase \<Rightarrow>
          (\<lambda>w. (Inr (exists w (path_join (project_dir (self_options s)) ''sqlite3.db'')), w))
      | RunServerAlias \<Rightarrow>
          except_ErrorReturnCode
            (case bash_config_file (self_options s) of
               Inl e \<Rightarrow> raise e
             | Inr path \<Rightarrow> grep_cat h s path ''runserver'')
            (\<lambda>_. ret False)
      | RunServer \<Rightarrow> ret True)"

subsection \<open>The hooks that run on every invocation\<close>

definition server_address :: string where
  "server_address = ''http://localhost:8001/''"

definition banner :: string where
  "banner =
     nl @ ''==================================================='' @ nl @ nl @
     ''Congradulations! Your local development environment is successfully setup and live at ''
       @ server_address @ ''.'' @ nl @ nl @
     ''Note: you can run the server directly in a NEW terminal by typing '' @ dq @
       ''runserver'' @ dq @ ''.'' @ nl @ nl @
     ''==================================================='' @ nl"

text \<open>\<^verbatim>\<open>RunServer._open\<close>.\<close>

definition open_browser :: "host \<Rightarrow> step \<Rightarrow> string \<Rightarrow> unit py" where
  "open_browser h s web_address =
     (if os (self_options s) = Some ''linux'' then
        bnd (sh_call h (self_sh s) ''xdg-open'' [S web_address] []) (\<lambda>_. ret ())
      else if os (self_options s) = Some ''osx'' then
        bnd (sh_call h (self_sh s) ''open'' [S web_address] []) (\<lambda>_. ret ())
      else ret ())"

text \<open>
  \<^verbatim>\<open>always_run\<close>. The server of \<^verbatim>\<open>RunServer\<close> is started in the background; the
  pause of three seconds changes no state; \<^verbatim>\<open>KeyboardInterrupt\<close> is caught around
  \<^verbatim>\<open>wait()\<close> only.
\<close>

definition always_run :: "host \<Rightarrow> step \<Rightarrow> unit py" where
  "always_run h s =
     (case step_class s of
        VirtualEnv \<Rightarrow>
          (\<lambda>w. if exists w (activate_this s) then activate h s w else (Inr (), w))
      | ProductionEnvironmentVariable \<Rightarrow>
          (\<lambda>w. (Inr (), w\<lparr>environ := (environ w)(variable \<mapsto> var_value)\<rparr>))
      | RunServer \<Rightarrow>
          bnd (chdir (project_dir (self_options s))) (\<lambda>_.
          bnd (run_virtualenv h ''python'' [S ''manage.py'', S ''runserver'', S ''0:8001'']
                 [Kw_bg, Kw_iter, Kw_out_stdout, Kw_err_stderr]) (\<lambda>runserver.
          bnd (py_print banner) (\<lambda>_.
          bnd (open_browser h s server_address) (\<lambda>_.
            (\<lambda>w. case sh_wait h runserver w of
                    (Inl KeyboardInterrupt, w') \<Rightarrow> (Inr (), w')
                  | r \<Rightarrow> r)))))
      | _ \<Rightarrow> ret ())"

subsection \<open>The setup actions\<close>

definition xcode_downloads :: "rat option \<Rightarrow> string option" where
  "xcode_downloads v =
     (if v = Some (107 / 10) then
        Some ''http://devimages.apple.com/downloads/xcode/command_line_tools_for_xcode_os_x_lion_april_2013.dmg''
      else if v = Some (108 / 10) then
        Some ''http://devimages.apple.com/downloads/xcode/command_line_tools_for_xcode_os_x_mountain_lion_april_2013.dmg''
      else None)"

definition dmg_file :: string where
  "dmg_file = ''/tmp/xcode.dmg''"

definition volume_dir :: string where
  "volume_dir = ''/tmp/xcode''"

definition XCodeInstall_setup :: "host \<Rightarrow> step \<Rightarrow> unit py" where
  "XCodeInstall_setup h s =
     (case xcode_downloads (version (self_options s)) of
        None \<Rightarrow> raise (NotImplementedError ''Could not locate XCode download for OSX'')
      | Some download_file \<Rightarrow>
          bnd (\<lambda>w. if \<not> exists w dmg_file then urlretrieve h download_file dmg_file w
                    else (Inr (), w)) (\<lambda>_.
          bnd (\<lambda>w. if \<not> exists w volume_dir then
                      bnd (sh_call h (self_sh s) ''hdiutil''
                             [S ''attach'', S ''-mountpoint'', S volume_dir, S dmg_file]
                             (verbose_kwargs s)) (\<lambda>_. ret ()) w
                    else (Inr (), w)) (\<lambda>_.
          bnd (\<lambda>w. case listdir h volume_dir w of
                      Inl e \<Rightarrow> (Inl e, w)
                    | Inr names \<Rightarrow>
                        (case filter (\<lambda>f. endswith f ''.mpkg'') names of
                           [] \<Rightarrow> (Inl IndexError, w)
                         | f # _ \<Rightarrow> (Inr f, w))) (\<lambda>mpkg_file.
            try_finally
              (except_ErrorReturnCode
                 (bnd (sh_call h (self_sh s) ''installer''
                         [S ''-pkg'', S (path_join volume_dir mpkg_file), S ''-target'', S ''/'']
                         (verbose_kwargs s)) (\<lambda>_. ret ()))
                 (\<lambda>stderr. py_print stderr))
              (bnd (sh_call h (self_sh s) ''hdiutil'' [S ''detach'', S volume_dir] [])
                 (\<lambda>_. ret ()))))))"

text \<open>
  \<^verbatim>\<open>setup\<close>. \<^verbatim>\<open>RunServer\<close> inherits the one of \<^verbatim>\<open>InstallStep\<close>, which raises.
\<close>

definition setup_step :: "host \<Rightarrow> step \<Rightarrow> unit py" where
  "setup_step h s =
     (case step_class s of
        XCodeInstall \<Rightarrow> XCodeInstall_setup h s
      | HomebrewInstall \<Rightarrow>
          bnd (urlretrieve h ''https://gist.github.com/rpavlik/768518/raw/fix_homebrew.rb''
                 ''homebrew_fix.rb'') (\<lambda>_.
          bnd (sh_call h (self_sh s) ''ruby'' [S ''homebrew_fix.rb''] (verbose_kwargs s)) (\<lambda>_.
          bnd (urlretrieve h ''https://raw.github.com/mxcl/homebrew/go'' ''homebrew.rb'') (\<lambda>_.
          bnd (sh_call h (self_sh s) ''ruby'' [S ''homebrew.rb''] (verbose_kwargs s)) (\<lambda>_.
            ret ()))))
      | BrewDependenciesInstall \<Rightarrow>
          bnd (sh_call h (self_sh s) ''brew'' [S ''install'', L brew_dependencies]
                 (verbose_kwargs s)) (\<lambda>_. ret ())
      | VirtualEnvInstall \<Rightarrow>
          bnd (sh_call h (self_sh s) ''easy_install'' [S ''pip''] (verbose_kwargs s)) (\<lambda>_.
          bnd (sh_call h (self_sh s) ''pip'' [S ''install'', S ''virtualenv''] (verbose_kwargs s))
            (\<lambda>_. ret ()))
      | AptDependenciesInstall \<Rightarrow>
          bnd (apt_run h s ''--yes'' (verbose_kwargs s)) (\<lambda>_. ret ())
      | UpdateHostsFile \<Rightarrow> prepend_file ''/etc/hosts'' (''127.0.0.1 '' @ HOST_NAMES)
      | GitClone \<Rightarrow>
          bnd (sh_call h (self_sh s) ''git''
                 [S ''clone'', S PROJECT_GIT_REPO, S (project_dir (self_options s))] [])
            (\<lambda>_. ret ())
      | VirtualEnv \<Rightarrow>
          bnd (\<lambda>w. if \<not> exists w (activate_this s) then
                      bnd (sh_call h (self_sh s) ''virtualenv''
                             [S ''--no-site-packages'', S ''--distribute'', S ''virtualenv''] [])
                        (\<lambda>_. ret ()) w
                    else (Inr (), w)) (\<lambda>_.
          bnd (activate h s) (\<lambda>_.
          bnd (pip h [S ''install'', S ''-r'', S (requirements_file s)] (verbose_kwargs s))
            (\<lambda>_. ret ())))
      | ProductionEnvironmentVariable \<Rightarrow>
          (case bash_config_file (self_options s) of
             Inl e \<Rightarrow> raise e
           | Inr path \<Rightarrow> prepend_file path (''export '' @ variable @ ''='' @ var_value))
      | SetupDatabase \<Rightarrow>
          bnd (chdir (project_dir (self_options s))) (\<lambda>_.
          bnd (run_virtualenv h ''python'' [S ''manage.py'', S ''resetdb''] (verbose_kwargs s))
            (\<lambda>_. ret ()))
      | RunServerAlias \<Rightarrow>
          (case bash_config_file (self_options s) of
             Inl e \<Rightarrow> raise e
           | Inr path \<Rightarrow>
               prepend_file path
                 (''alias runserver='' @ dq @ ''cd '' @ project_dir (self_options s) @
                  ''; source ../virtualenv/bin/activate; ./manage.py runserver 8001'' @ dq))
      | RunServer \<Rightarrow> raise (NotImplementedError []))"

section \<open>The catalog and the orchestrator\<close>

definition get_steps :: "string \<Rightarrow> rat option \<Rightarrow> step_cls list" where
  "get_steps os_name ver =
     (if os_name = ''osx'' then
        [XCodeInstall, HomebrewInstall, BrewDependenciesInstall, VirtualEnvInstall]
      else []) @
     (if os_name = ''linux'' then [AptDependenciesInstall] else []) @
     [UpdateHostsFile, GitClone, VirtualEnv, ProductionEnvironmentVariable, SetupDatabase,
      RunServerAlias, RunServer]"

text \<open>
  What a run did, for the properties below: which class was instantiated and which
  method of which step was called, in order. The record of calls is kept by the
  orchestrator, apart from the state the steps and the commands can change.
\<close>

datatype event =
    Instantiate step_cls
  | AlwaysRun step_cls
  | Probe step_cls
  | Setup step_cls

record outcome =
  result :: "exn + unit"
  calls :: "event list"
  final :: world

definition after :: "event list \<Rightarrow> outcome \<Rightarrow> outcome" where
  "after evs out = out\<lparr>calls := evs @ calls out\<rparr>"

definition stop :: "exn \<Rightarrow> event list \<Rightarrow> world \<Rightarrow> outcome" where
  "stop e evs w = \<lparr>result = Inl e, calls = evs, final = w\<rparr>"

text \<open>
  The lines of \<^verbatim>\<open>run_steps\<close> after \<^verbatim>\<open>step.setup()\<close> and its \<^verbatim>\<open>except\<close> clause,
  for a step that is not forced: the second look at \<^verbatim>\<open>already_satisfied\<close>, and the
  failure report. \<open>None\<close> stands for \<^verbatim>\<open>continue\<close>.
\<close>

definition verify :: "host \<Rightarrow> step \<Rightarrow> world \<Rightarrow> (exn option \<times> event list) \<times> world" where
  "verify h step w =
     (let c = step_class step in
      case already_satisfied h step w of
        (Inl e, w') \<Rightarrow> ((Some e, [Probe c]), w')
      | (Inr True, w') \<Rightarrow> ((None, [Probe c]), w')
      | (Inr False, w') \<Rightarrow>
          (let w1 = snd (py_print (''ERROR: '' @ display_name c @ '' failed.'') w');
               w2 = (case display_troubleshooting c of
                       None \<Rightarrow> w1
                     | Some text \<Rightarrow>
                         if text = [] then w1
                         else snd (py_print text
                                (snd (py_print ''=================== Trouble-shooting ===================''
                                   (snd (py_print [] w1))))))
           in ((Some (SystemExit 1), [Probe c]), w2)))"

text \<open>
  The body of the loop of \<^verbatim>\<open>run_steps\<close> for one class of the catalog. \<open>None\<close> stands
  for \<^verbatim>\<open>continue\<close>; \<open>Some e\<close> for the exception that leaves the loop, which is
  \<open>SystemExit 1\<close> for \<^verbatim>\<open>exit(1)\<close>.
\<close>

definition run_step ::
  "host \<Rightarrow> options \<Rightarrow> step_cls \<Rightarrow> world \<Rightarrow> (exn option \<times> event list) \<times> world" where
  "run_step h opts c w =
     (case init h opts c w of
        (Inl e, w1) \<Rightarrow> ((Some e, [Instantiate c]), w1)
      | (Inr step, w1) \<Rightarrow>
     (case always_run h step w1 of
        (Inl e, w2) \<Rightarrow> ((Some e, [Instantiate c, AlwaysRun c]), w2)
      | (Inr _, w2) \<Rightarrow>
     if py_in (display_name c) (skip opts) then ((None, [Instantiate c, AlwaysRun c]), w2)
     else
     (case already_satisfied h step w2 of
        (Inl e, w3) \<Rightarrow> ((Some e, [Instantiate c, AlwaysRun c, Probe c]), w3)
      | (Inr satisfied, w3) \<Rightarrow>
     if satisfied \<and> \<not> py_in (display_name c) (force opts) then
       ((None, [Instantiate c, AlwaysRun c, Probe c]), w3)
     else
     (case except_ErrorReturnCode (setup_step h step) (\<lambda>stderr. py_print stderr)
             (snd (py_print (display_doing c @ ''...'') w3)) of
        (Inl e, w5) \<Rightarrow> ((Some e, [Instantiate c, AlwaysRun c, Probe c, Setup c]), w5)
      | (Inr _, w5) \<Rightarrow>
     if py_in (display_name c) (force opts) then
       ((Some (SystemExit 1), [Instantiate c, AlwaysRun c, Probe c, Setup c]), w5)
     else
     (case verify h step w5 of
        ((v, evs), w6) \<Rightarrow>
          ((v, [Instantiate c, AlwaysRun c, Probe c, Setup c] @ evs), w6))))))"

text \<open>The loop over the classes of the catalog.\<close>

fun run_loop :: "host \<Rightarrow> options \<Rightarrow> step_cls list \<Rightarrow> world \<Rightarrow> outcome" where
  "run_loop h opts [] w = \<lparr>result = Inr (), calls = [], final = w\<rparr>"
| "run_loop h opts (c # cs) w =
     (case run_step h opts c w of
        ((Some e, evs), w') \<Rightarrow> stop e evs w'
      | ((None, evs), w') \<Rightarrow> after evs (run_loop h opts cs w'))"

definition run_steps :: "host \<Rightarrow> string \<Rightarrow> options \<Rightarrow> world \<Rightarrow> outcome" where
  "run_steps h temp_dir opts w =
     (case get_os_and_version h of
        Inl e \<Rightarrow> stop e [] w
      | Inr (os_name, ver) \<Rightarrow>
          run_loop h (opts\<lparr>os := Some os_name, version := ver\<rparr>) (get_steps os_name ver) w)"

text \<open>The main block, with the parsed command line as arguments.\<close>

definition main :: "host \<Rightarrow> string \<Rightarrow> string \<Rightarrow> bool \<Rightarrow> world \<Rightarrow> outcome" where
  "main h force_arg skip_arg quiet_arg w =
     (let opts = get_options w force_arg skip_arg quiet_arg in
      case make_temp_directory h w of
        (Inl e, w1) \<Rightarrow> stop e [] w1
      | (Inr temp_dir, w1) \<Rightarrow>
     (case load_this_script_deps h w1 of
        (Inl e, w2) \<Rightarrow> stop e [] w2
      | (Inr _, w2) \<Rightarrow>
     (case sh_call h Sh ''chmod'' [S ''777'', S temp_dir] [] w2 of
        (Inl e, w3) \<Rightarrow> stop e [] w3
      | (Inr _, w3) \<Rightarrow> run_steps h temp_dir opts w3)))"

text \<open>
  The exit status of the process: 0 when the main block returns, the argument of
  \<^verbatim>\<open>exit\<close>, and 1 for any other exception that nothing catches.
\<close>

definition exit_status :: "exn + unit \<Rightarrow> nat" where
  "exit_status r =
     (case r of Inr _ \<Rightarrow> 0 | Inl (SystemExit n) \<Rightarrow> n | Inl _ \<Rightarrow> 1)"

section \<open>A reference machine\<close>

text \<open>
  One concrete host and state, on which the theorems below are instantiated: a Linux
  machine on which the packages, the clone of the project, its virtualenv and its
  database are already there, so that the commands have nothing left to install.
  \<^verbatim>\<open>cat\<close> and \<^verbatim>\<open>grep\<close> read the file system of the state; \<^verbatim>\<open>git clone\<close> fails
  because the directory exists; \<^verbatim>\<open>activate_this.py\<close> puts the virtualenv first on the
  path; there is no network. No command of this machine changes the state.
\<close>

definition lab_grep :: "string \<Rightarrow> string \<Rightarrow> string list" where
  "lab_grep pattern input = filter (py_in pattern) (split_chr (CHR 0x0A) input)"

definition lab_freeze :: string where
  "lab_freeze = ''Django==1.5'' @ nl @ ''sh==1.08'' @ nl"

definition lab_sh_call :: "runner \<Rightarrow> string \<Rightarrow> arg list \<Rightarrow> kwarg list \<Rightarrow> string py" where
  "lab_sh_call r prog args kwargs w =
     (if prog = ''cat'' then
        (case args of
           [S p] \<Rightarrow>
             (case fs w (resolve w p) of
                Some (File s) \<Rightarrow> (Inr s, w)
              | _ \<Rightarrow> (Inl (ErrorReturnCode (''cat: '' @ p @ '': No such file or directory'')), w))
         | _ \<Rightarrow> (Inl (ErrorReturnCode ''cat: bad arguments''), w))
      else if prog = ''grep'' then
        (case args of
           [Piped input, S pattern] \<Rightarrow>
             (if lab_grep pattern input = [] then (Inl (ErrorReturnCode []), w)
              else (Inr (str_join nl (lab_grep pattern input) @ nl), w))
         | _ \<Rightarrow> (Inl (ErrorReturnCode ''grep: bad arguments''), w))
      else if prog = ''apt_get'' then
        (Inr ''0 upgraded, 0 newly installed, 0 to remove and 0 not upgraded.'', w)
      else if prog = ''brew'' \<and> args = [S ''list'', S ''-1''] then
        (Inr (str_join nl brew_dependencies @ nl), w)
      else if prog = ''git'' then
        (Inl (ErrorReturnCode ''fatal: destination path already exists''), w)
      else if prog = ''sudo'' \<and> S ''freeze'' \<in> set args then
        (Inr lab_freeze, w)
      else (Inr (''ok'' @ nl), w))"

definition lab_execfile :: "string \<Rightarrow> unit py" where
  "lab_execfile path w =
     (case fs w (resolve w path) of
        Some (File _) \<Rightarrow>
          (Inr (), w\<lparr>environ := (environ w)(''PATH'' \<mapsto>
             ''/home/dev/projects/advocoders/virtualenv/bin:'' @
             (case environ w ''PATH'' of None \<Rightarrow> [] | Some p \<Rightarrow> p))\<rparr>)
      | _ \<Rightarrow> (Inl (IOError path), w))"

definition lab_py_float :: "string \<Rightarrow> exn + rat" where
  "lab_py_float s =
     (if s = ''10.7'' then Inr (107 / 10)
      else if s = ''10.8'' then Inr (108 / 10)
      else Inl ValueError)"

definition lab_host :: host where
  "lab_host =
     \<lparr>sys_platform = ''linux2'',
      mac_ver = [],
      sh_call = lab_sh_call,
      sh_which = (\<lambda>prog w. Some (''/usr/bin/'' @ prog)),
      sh_wait = (\<lambda>proc w. (Inr (), w)),
      urlretrieve = (\<lambda>url path w. (Inl (IOError url), w)),
      execfile = lab_execfile,
      listdir = (\<lambda>path w. Inl (OSError path)),
      mkdtemp = (\<lambda>w. Inr ''/tmp/tmpQ3x9Zk''),
      import_sh = (\<lambda>w. True),
      load_source = (\<lambda>path w. Inr ()),
      py_float = lab_py_float\<rparr>"

definition lab_files :: "(string \<times> node) list" where
  "lab_files =
     [(''/etc/hosts'', File (''127.0.0.1 localhost'' @ nl)),
      (''/tmp'', Dir),
      (''/home/dev'', Dir),
      (''/home/dev/.bashrc'', File (''# ~/.bashrc'' @ nl)),
      (''/home/dev/.bash_profile'', File (''# ~/.bash_profile'' @ nl)),
      (''/home/dev/projects/advocoders'', Dir),
      (''/home/dev/projects/advocoders/requirements.txt'', File (''Django==1.5'' @ nl)),
      (''/home/dev/projects/advocoders/virtualenv/bin/activate_this.py'', File []),
      (''/home/dev/projects/advocoders/sqlite3.db'', File [])]"

definition lab_world :: world where
  "lab_world =
     \<lparr>pw_dir = ''/root'',
      environ = map_of [(''HOME'', ''/home/dev''), (''SUDO_USER'', ''dev''),
                        (''PATH'', ''/usr/bin:/bin'')],
      cwd = ''/home/dev'',
      fs = map_of lab_files,
      write_protected = {},
      stdout = []\<rparr>"

text \<open>The options and the step objects that a run on this machine creates.\<close>

definition lab_options :: options where
  "lab_options = (get_options lab_world [] [] False)\<lparr>os := Some ''linux'', version := None\<rparr>"

definition lab_step :: "step_cls \<Rightarrow> step" where
  "lab_step c =
     \<lparr>step_class = c, self_options = lab_options,
      verbose_kwargs = [Kw_out_stdout, Kw_err_stdout],
      self_sh = (if root c then Sh else SudoAs (Some ''dev'')),
      activate_this =
        (if c = VirtualEnv
         then ''/home/dev/projects/advocoders/virtualenv/bin/activate_this.py'' else []),
      requirements_file =
        (if c = VirtualEnv then ''/home/dev/projects/advocoders/requirements.txt'' else [])\<rparr>"

text \<open>
  Variants of the machine: a Mac of the same content; a Mac without \<^verbatim>\<open>brew\<close>; a machine
  whose \<^verbatim>\<open>pip install\<close> fails; a machine of an unknown platform; a state in which
  the requirements name a package that is not installed; and a state in which the project
  has not been cloned.
\<close>

definition mac_host :: host where
  "mac_host = lab_host\<lparr>sys_platform := ''darwin'', mac_ver := ''10.8.3''\<rparr>"

definition no_brew_host :: host where
  "no_brew_host =
     mac_host\<lparr>sh_call := (\<lambda>r prog args kwargs w.
        if prog = ''brew'' then (Inl (CommandNotFound ''brew''), w)
        else lab_sh_call r prog args kwargs w)\<rparr>"

definition offline_host :: host where
  "offline_host =
     lab_host\<lparr>sh_call := (\<lambda>r prog args kwargs w.
        if prog = ''sudo'' \<and> S ''install'' \<in> set args
        then (Inl (ErrorReturnCode ''Could not fetch URL https://pypi.python.org/simple/''), w)
        else lab_sh_call r prog args kwargs w)\<rparr>"

definition bsd_host :: host where
  "bsd_host = lab_host\<lparr>sys_platform := ''freebsd9''\<rparr>"

definition stale_world :: world where
  "stale_world =
     lab_world\<lparr>fs := (fs lab_world)(''/home/dev/projects/advocoders/requirements.txt'' \<mapsto>
        File (''Django==1.5'' @ nl @ ''requests==1.2.0'' @ nl))\<rparr>"

definition bare_world :: world where
  "bare_world =
     lab_world\<lparr>fs := map_of
        [(''/etc/hosts'', File (''127.0.0.1 localhost'' @ nl)),
         (''/tmp'', Dir),
         (''/home/dev'', Dir),
         (''/home/dev/.bashrc'', File (''# ~/.bashrc'' @ nl)),
         (''/home/dev/.bash_profile'', File (''# ~/.bash_profile'' @ nl))]\<rparr>"

section \<open>Notions of the specification\<close>

text \<open>
  The command line documents \<^verbatim>\<open>--force\<close> and \<^verbatim>\<open>--skip\<close> as step names, comma
  separated: \<open>listed name opt\<close> says that \<open>name\<close> is one of the names in \<open>opt\<close>. The
  orchestrator does not split the option; it tests \<^verbatim>\<open>name in opt\<close>, which is \<^const>\<open>py_in\<close>.
\<close>

definition listed :: "string \<Rightarrow> string \<Rightarrow> bool" where
  "listed name opt = (name \<in> set (split_chr (CHR '','') opt))"

text \<open>The commands that the probes run.\<close>

definition probe_command :: "string \<Rightarrow> arg list \<Rightarrow> bool" where
  "probe_command prog args =
     (prog = ''make'' \<and> args = [S ''-version''] \<or>
      prog = ''brew'' \<and> (args = [S ''--version''] \<or> args = [S ''list'', S ''-1'']) \<or>
      prog = ''virtualenv'' \<and> args = [S ''--version''] \<or>
      prog = ''apt_get'' \<and> args = [S ''install'', S ''--dry-run'', L apt_dependencies] \<or>
      prog = ''cat'' \<or> prog = ''grep'')"


text \<open>A computation that leaves the state as it found it, whatever it returns or raises.\<close>

definition keeps_state :: "'a py \<Rightarrow> bool" where
  "keeps_state m = (\<forall>w. snd (m w) = w)"

text \<open>The commands of the probes change nothing on this host.\<close>

definition probe_commands_read_only :: "host \<Rightarrow> bool" where
  "probe_commands_read_only h =
     (\<forall>r prog args kwargs. probe_command prog args \<longrightarrow>
        keeps_state (sh_call h r prog args kwargs))"




text \<open>A computation that leaves the file system as it found it.\<close>

definition keeps_fs :: "'a py \<Rightarrow> bool" where
  "keeps_fs m = (\<forall>w. fs (snd (m w)) = fs w)"



section \<open>Properties\<close>

subsection \<open>Strings\<close>

lemma startswith_Nil [simp]: "startswith s []"
  by (simp add: startswith_def)

lemma startswith_Cons [simp]: "startswith (c # s) (d # p) = (c = d \<and> startswith s p)"
  by (simp add: startswith_def)

lemma py_in_Nil [simp]: "py_in [] s"
  by (cases s) simp_all

lemma split_chr_not_Nil [simp]: "split_chr sep s \<noteq> []"
  by (induction s) (auto split: list.splits)

lemma split_chr_hd_prefix: "split_chr sep s = p # ps \<Longrightarrow> startswith s p"
proof (induction s arbitrary: p ps)
  case Nil
  then show ?case by simp
next
  case (Cons c s)
  show ?case
  proof (cases "c = sep")
    case True
    with Cons.prems show ?thesis by simp
  next
    case False
    obtain q qs where q: "split_chr sep s = q # qs"
      by (cases "split_chr sep s") simp_all
    with Cons.prems False have "p = c # q" by simp
    with Cons.IH [OF q] show ?thesis by simp
  qed
qed

lemma split_chr_py_in: "x \<in> set (split_chr sep s) \<Longrightarrow> py_in x s"
proof (induction s arbitrary: x)
  case Nil
  then show ?case by simp
next
  case (Cons c s)
  show ?case
  proof (cases "c = sep")
    case True
    with Cons show ?thesis by auto
  next
    case False
    obtain q qs where q: "split_chr sep s = q # qs"
      by (cases "split_chr sep s") simp_all
    with Cons.prems False have "x = c # q \<or> x \<in> set qs" by simp
    then show ?thesis
    proof
      assume "x = c # q"
      with split_chr_hd_prefix [OF q] show ?thesis by simp
    next
      assume "x \<in> set qs"
      with q have "x \<in> set (split_chr sep s)" by simp
      with Cons.IH show ?thesis by simp
    qed
  qed
qed

lemma listed_py_in: "listed name opt \<Longrightarrow> py_in name opt"
  by (simp add: listed_def split_chr_py_in)

subsection \<open>Events of a run\<close>

lemma calls_after [simp]: "calls (after evs out) = evs @ calls out"
  by (simp add: after_def)

lemma result_after [simp]: "result (after evs out) = result out"
  by (simp add: after_def)

lemma final_after [simp]: "final (after evs out) = final out"
  by (simp add: after_def)

lemma calls_stop [simp]: "calls (stop e evs w) = evs"
  by (simp add: stop_def)

lemma result_stop [simp]: "result (stop e evs w) = Inl e"
  by (simp add: stop_def)

lemma final_stop [simp]: "final (stop e evs w) = w"
  by (simp add: stop_def)

lemma verify_calls: "snd (fst (verify h step w)) = [Probe (step_class step)]"
  by (simp add: verify_def Let_def split: prod.splits sum.splits bool.splits)

lemma display_name_inj: "display_name c = display_name d \<Longrightarrow> c = d"
  by (cases c; cases d) simp_all

lemma init_class: "init h opts c w = (Inr step, w') \<Longrightarrow> step_class step = c \<and> self_options step = opts"
  by (auto simp: init_def InstallStep_init_def bnd_def Let_def
      split: if_splits prod.splits sum.splits option.splits)

lemma verify_events: "verify h step w = ((v, evs), w') \<Longrightarrow> evs = [Probe (step_class step)]"
  using verify_calls [of h step w] by simp

text \<open>A step that the orchestrator skips has no \<^verbatim>\<open>setup()\<close> call in a pass of the loop.\<close>

lemma run_step_skipped:
  "py_in (display_name c) (skip opts) \<Longrightarrow> Setup x \<in> set (snd (fst (run_step h opts c w))) \<Longrightarrow>
   False"
  by (auto simp: run_step_def split: prod.splits sum.splits)

lemma run_step_events_class:
  "Setup x \<in> set (snd (fst (run_step h opts c w))) \<Longrightarrow> x = c"
  by (auto simp: run_step_def split: prod.splits sum.splits if_splits
      dest!: verify_events init_class)

lemma run_loop_skipped_no_setup:
  "py_in (display_name c) (skip opts) \<Longrightarrow> Setup c \<notin> set (calls (run_loop h opts cs w))"
proof (induction cs arbitrary: w)
  case Nil
  then show ?case by simp
next
  case (Cons d cs)
  have "Setup c \<notin> set (snd (fst (run_step h opts d w)))"
    using run_step_skipped [OF Cons.prems] run_step_events_class by blast
  with Cons.IH [OF Cons.prems] show ?case
    by (auto split: prod.splits option.splits)
qed

lemma run_steps_skipped_no_setup:
  "py_in (display_name c) (skip opts) \<Longrightarrow> Setup c \<notin> set (calls (run_steps h t opts w))"
  by (auto simp: run_steps_def run_loop_skipped_no_setup split: sum.splits prod.splits)

lemma main_skipped_no_setup:
  "py_in (display_name c) skip_arg \<Longrightarrow>
   Setup c \<notin> set (calls (main h force_arg skip_arg quiet_arg w))"
  by (auto simp: main_def Let_def get_options_def run_steps_skipped_no_setup
      split: sum.splits prod.splits)

text \<open>
  One pass of the loop for a step that the orchestrator treats as forced, and one for a
  step that it does not, whose \<^verbatim>\<open>setup()\<close> raises \<^verbatim>\<open>ErrorReturnCode\<close>.
\<close>

lemma forced_step_runs_setup_and_stops:
  assumes "py_in (display_name c) (force opts)" and "\<not> py_in (display_name c) (skip opts)"
    and "init h opts c w = (Inr step, w1)" and "always_run h step w1 = (Inr (), w2)"
    and "already_satisfied h step w2 = (Inr b, w3)"
  shows "run_loop h opts (c # cs) w =
     (case except_ErrorReturnCode (setup_step h step) (\<lambda>stderr. py_print stderr)
             (snd (py_print (display_doing c @ ''...'') w3)) of
        (Inl e, w5) \<Rightarrow> stop e [Instantiate c, AlwaysRun c, Probe c, Setup c] w5
      | (Inr _, w5) \<Rightarrow> stop (SystemExit 1) [Instantiate c, AlwaysRun c, Probe c, Setup c] w5)"
  using assms by (simp add: run_step_def split: prod.splits sum.splits)

lemma failed_setup_is_verified:
  assumes "\<not> py_in (display_name c) (force opts)" and "\<not> py_in (display_name c) (skip opts)"
    and "init h opts c w = (Inr step, w1)" and "always_run h step w1 = (Inr (), w2)"
    and "already_satisfied h step w2 = (Inr False, w3)"
    and "setup_step h step (snd (py_print (display_doing c @ ''...'') w3)) =
           (Inl (ErrorReturnCode err), w4)"
  shows "run_loop h opts (c # cs) w =
     (case verify h step (w4\<lparr>stdout := stdout w4 @ [err]\<rparr>) of
        ((Some e, evs), w6) \<Rightarrow>
           stop e [Instantiate c, AlwaysRun c, Probe c, Setup c, Probe c] w6
      | ((None, evs), w6) \<Rightarrow>
           after [Instantiate c, AlwaysRun c, Probe c, Setup c, Probe c] (run_loop h opts cs w6))"
proof -
  from assms(3) have sc: "step_class step = c" by (simp add: init_class)
  have v: "\<And>w e evs w'. verify h step w = ((e, evs), w') \<Longrightarrow> evs = [Probe c]"
    using verify_events sc by blast
  show ?thesis
    using assms
    by (auto simp: run_step_def except_ErrorReturnCode_def py_print_def
        split: prod.splits sum.splits option.splits dest: v)
qed

subsection \<open>Probes\<close>

lemma brew_probe_raises:
  assumes "step_class s = BrewDependenciesInstall"
    and "sh_call h (self_sh s) ''brew'' [S ''list'', S ''-1''] [] w = (Inl e, w')"
  shows "already_satisfied h s w = (Inl e, w')"
  using assms by (simp add: already_satisfied_def bnd_def)

lemma guarded_probes_never_raise:
  assumes "step_class s \<in> {XCodeInstall, HomebrewInstall, VirtualEnvInstall, GitClone,
      SetupDatabase, RunServer}"
  shows "\<exists>b. fst (already_satisfied h s w) = Inr b"
  using assms
  by (auto simp: already_satisfied_def except_all_def bnd_def ret_def
      split: prod.splits sum.splits)

lemma keeps_state_ret [simp]: "keeps_state (ret x)"
  by (simp add: keeps_state_def ret_def)

lemma keeps_state_raise [simp]: "keeps_state (raise e)"
  by (simp add: keeps_state_def raise_def)

lemma keeps_state_bnd:
  "keeps_state m \<Longrightarrow> (\<And>x. keeps_state (f x)) \<Longrightarrow> keeps_state (bnd m f)"
  unfolding keeps_state_def bnd_def
  by (auto split: prod.splits sum.splits) (metis snd_conv)+

lemma keeps_state_except_ErrorReturnCode:
  "keeps_state m \<Longrightarrow> (\<And>err. keeps_state (f err)) \<Longrightarrow>
   keeps_state (except_ErrorReturnCode m f)"
  unfolding keeps_state_def except_ErrorReturnCode_def
  by (auto split: prod.splits sum.splits exn.splits) (metis snd_conv)+

lemma keeps_state_except_all:
  "keeps_state m \<Longrightarrow> keeps_state f \<Longrightarrow> keeps_state (except_all m f)"
  unfolding keeps_state_def except_all_def
  by (auto split: prod.splits sum.splits) (metis snd_conv)+

lemma keeps_state_grep_cat:
  assumes "probe_commands_read_only h"
  shows "keeps_state (grep_cat h s path pattern)"
  using assms unfolding grep_cat_def probe_commands_read_only_def
  by (intro keeps_state_bnd keeps_state_ret) (simp_all add: probe_command_def)

lemma keeps_state_probe:
  assumes "probe_commands_read_only h" and "step_class s \<noteq> VirtualEnv"
  shows "keeps_state (already_satisfied h s)"
proof -
  have c: "\<And>r prog args kwargs. probe_command prog args \<Longrightarrow>
      keeps_state (sh_call h r prog args kwargs)"
    using assms(1) by (simp add: probe_commands_read_only_def)
  have g: "\<And>path pattern.
      keeps_state (except_ErrorReturnCode (grep_cat h s path pattern) (\<lambda>_. ret False))"
    by (intro keeps_state_except_ErrorReturnCode keeps_state_grep_cat assms(1) keeps_state_ret)
  have b: "\<And>x. keeps_state (case x of Inl e \<Rightarrow> raise e
      | Inr path \<Rightarrow> grep_cat h s path variable)"
    "\<And>x. keeps_state (case x of Inl e \<Rightarrow> raise e
      | Inr path \<Rightarrow> grep_cat h s path ''runserver'')"
    by (auto split: sum.splits intro: keeps_state_grep_cat assms(1))
  show ?thesis
  proof (cases "step_class s")
    case XCodeInstall
    then show ?thesis
      by (auto simp: already_satisfied_def probe_command_def
          intro!: keeps_state_except_all keeps_state_bnd c)
  next
    case HomebrewInstall
    then show ?thesis
      by (auto simp: already_satisfied_def probe_command_def
          intro!: keeps_state_except_all keeps_state_bnd c)
  next
    case BrewDependenciesInstall
    then show ?thesis
      by (auto simp: already_satisfied_def probe_command_def Let_def
          intro!: keeps_state_bnd c)
  next
    case VirtualEnvInstall
    then show ?thesis
      by (auto simp: already_satisfied_def probe_command_def
          intro!: keeps_state_except_all keeps_state_bnd c)
  next
    case AptDependenciesInstall
    then show ?thesis
      by (auto simp: already_satisfied_def apt_run_def probe_command_def
          intro!: keeps_state_bnd c)
  next
    case UpdateHostsFile
    then show ?thesis using g by (simp add: already_satisfied_def)
  next
    case GitClone
    then show ?thesis by (simp add: already_satisfied_def keeps_state_def)
  next
    case VirtualEnv
    with assms(2) show ?thesis by simp
  next
    case ProductionEnvironmentVariable
    then show ?thesis
      by (auto simp: already_satisfied_def
          intro!: keeps_state_except_ErrorReturnCode b)
  next
    case SetupDatabase
    then show ?thesis by (simp add: already_satisfied_def keeps_state_def)
  next
    case RunServerAlias
    then show ?thesis
      by (auto simp: already_satisfied_def
          intro!: keeps_state_except_ErrorReturnCode b)
  next
    case RunServer
    then show ?thesis by (simp add: already_satisfied_def)
  qed
qed

subsection \<open>Files\<close>

lemma prepend_file_result:
  assumes "fs w (resolve w path) = Some (File old)" and "resolve w path \<notin> write_protected w"
  shows "prepend_file path entry w =
     (Inr (), w\<lparr>fs := (fs w)(resolve w path \<mapsto> File (entry @ nl @ old))\<rparr>)"
  using assms by (simp add: prepend_file_def bnd_def read_file_def write_file_def)

subsection \<open>What the steps keep\<close>





















subsection \<open>Objects of the reference machine\<close>

lemma lab_sh_call_state: "keeps_state (lab_sh_call r prog args kwargs)"
  by (simp add: keeps_state_def lab_sh_call_def
      split: list.splits arg.splits option.splits node.splits)

lemma lab_probe_commands_read_only: "probe_commands_read_only lab_host"
  by (simp add: probe_commands_read_only_def lab_host_def lab_sh_call_state)

lemma lab_init_UpdateHostsFile:
  "init lab_host (lab_options\<lparr>skip := sk, force := fo\<rparr>) UpdateHostsFile lab_world =
     (Inr ((lab_step UpdateHostsFile)\<lparr>self_options := lab_options\<lparr>skip := sk, force := fo\<rparr>\<rparr>),
      lab_world)"
  by (simp add: init_def InstallStep_init_def lab_step_def lab_options_def get_options_def
      Let_def)

lemma lab_unskipped_UpdateHostsFile:
  "Setup UpdateHostsFile \<in>
     set (calls (run_loop lab_host (lab_options\<lparr>skip := [], force := []\<rparr>)
       [UpdateHostsFile] lab_world))"
  by code_simp

lemma lab_forced_UpdateHostsFile:
  "result (run_loop lab_host (lab_options\<lparr>skip := [], force := ''UpdateHostsFile''\<rparr>)
      [UpdateHostsFile, GitClone] lab_world) = Inl (SystemExit 1)"
  by code_simp

lemma lab_PATH: "environ lab_world ''PATH'' = Some ''/usr/bin:/bin''"
  by (simp add: lab_world_def)

lemma lab_PATH_after_probe:
  "environ (snd (already_satisfied lab_host (lab_step VirtualEnv) lab_world)) ''PATH'' =
     Some ''/home/dev/projects/advocoders/virtualenv/bin:/usr/bin:/bin''"
  by code_simp

lemma bsd_startup:
  "make_temp_directory bsd_host lab_world =
     (Inr ''/tmp/tmpQ3x9Zk'',
      lab_world\<lparr>fs := (fs lab_world)(''/tmp/tmpQ3x9Zk'' \<mapsto> Dir), cwd := ''/tmp/tmpQ3x9Zk''\<rparr>)"
  "load_this_script_deps bsd_host w = (Inr (), w)"
  "sh_call bsd_host Sh ''chmod'' [S ''777'', S ''/tmp/tmpQ3x9Zk''] [] w = (Inr (''ok'' @ nl), w)"
  by (simp_all add: make_temp_directory_def load_this_script_deps_def bsd_host_def lab_host_def
      lab_sh_call_def bnd_def ret_def chdir_def resolve_def startswith_def)

lemma offline_forced_run:
  "calls (main offline_host ''VirtualEnvInstall'' [] False stale_world) =
     [Instantiate AptDependenciesInstall, AlwaysRun AptDependenciesInstall,
      Probe AptDependenciesInstall,
      Instantiate UpdateHostsFile, AlwaysRun UpdateHostsFile, Probe UpdateHostsFile,
      Setup UpdateHostsFile, Probe UpdateHostsFile,
      Instantiate GitClone, AlwaysRun GitClone, Probe GitClone,
      Instantiate VirtualEnv, AlwaysRun VirtualEnv, Probe VirtualEnv, Setup VirtualEnv]"
  by code_simp

lemma offline_forced_result:
  "result (main offline_host ''VirtualEnvInstall'' [] False stale_world) = Inl (SystemExit 1)"
  by code_simp

lemma offline_forced_stdout:
  "stdout (final (main offline_host ''VirtualEnvInstall'' [] False stale_world)) =
     [''Updating hosts file...'',
      ''Setting up a virtualenv and installing python dependencies...'',
      ''Could not fetch URL https://pypi.python.org/simple/'']"
  by code_simp

lemma offline_plain_stdout:
  "stdout (final (main offline_host [] [] False stale_world)) =
     [''Updating hosts file...'',
      ''Setting up a virtualenv and installing python dependencies...'',
      ''Could not fetch URL https://pypi.python.org/simple/'',
      ''ERROR: VirtualEnv failed.'']"
  by code_simp

lemma resolve_absolute: "startswith p ''/'' \<Longrightarrow> resolve w p = p"
  by (simp add: resolve_def)


lemma keeps_state_fs: "keeps_state m \<Longrightarrow> keeps_fs m"
  by (simp add: keeps_state_def keeps_fs_def)

lemma keeps_fs_ret [simp]: "keeps_fs (ret x)"
  by (simp add: keeps_fs_def ret_def)

lemma keeps_fs_raise [simp]: "keeps_fs (raise e)"
  by (simp add: keeps_fs_def raise_def)

lemma keeps_fs_pair [simp]: "keeps_fs (\<lambda>w. (r, w))"
  by (simp add: keeps_fs_def)

lemma keeps_fs_bnd:
  "keeps_fs m \<Longrightarrow> (\<And>x. keeps_fs (f x)) \<Longrightarrow> keeps_fs (bnd m f)"
  unfolding keeps_fs_def bnd_def
  by (auto split: prod.splits sum.splits) (metis snd_conv)+

lemma keeps_fs_except_ErrorReturnCode:
  "keeps_fs m \<Longrightarrow> (\<And>err. keeps_fs (f err)) \<Longrightarrow> keeps_fs (except_ErrorReturnCode m f)"
  unfolding keeps_fs_def except_ErrorReturnCode_def
  by (auto split: prod.splits sum.splits exn.splits) (metis snd_conv)+

lemma keeps_fs_try_finally:
  "keeps_fs m \<Longrightarrow> keeps_fs f \<Longrightarrow> keeps_fs (try_finally m f)"
  unfolding keeps_fs_def try_finally_def
  by (auto split: prod.splits sum.splits) (metis snd_conv)+


lemma keeps_fs_chdir [simp]: "keeps_fs (chdir p)"
  by (simp add: keeps_fs_def chdir_def split: option.splits node.splits)


lemma keeps_fs_read_file [simp]: "keeps_fs (read_file p)"
  by (simp add: keeps_fs_def read_file_def split: option.splits node.splits)


subsection \<open>The reference machine keeps what is done\<close>

lemma lab_host_fields [simp]:
  "sh_call lab_host = lab_sh_call"
  "execfile lab_host = lab_execfile"
  "sh_which lab_host = (\<lambda>prog w. Some (''/usr/bin/'' @ prog))"
  "sh_wait lab_host = (\<lambda>proc w. (Inr (), w))"
  "urlretrieve lab_host = (\<lambda>url path w. (Inl (IOError url), w))"
  "listdir lab_host = (\<lambda>path w. Inl (OSError path))"
  by (simp_all add: lab_host_def)


lemma keeps_fs_lab_sh_call [simp]: "keeps_fs (lab_sh_call r prog args kwargs)"
  by (rule keeps_state_fs) (rule lab_sh_call_state)

lemma keeps_fs_lab_execfile [simp]: "keeps_fs (lab_execfile p)"
  by (simp add: keeps_fs_def lab_execfile_def split: option.splits node.splits)

lemma keeps_fs_lab_run_virtualenv [simp]: "keeps_fs (run_virtualenv lab_host command args kwargs)"
  using keeps_fs_lab_sh_call by (simp add: keeps_fs_def run_virtualenv_def Let_def)

lemma keeps_fs_lab_open_browser [simp]: "keeps_fs (open_browser lab_host s a)"
  by (auto simp: open_browser_def intro!: keeps_fs_bnd)
















section \<open>The claims\<close>

text \<open>
  C9. The catalog is a function of the detected OS alone; the version does not change
  it. When the platform is \<^verbatim>\<open>linux2\<close> the OS is detected as \<^verbatim>\<open>linux\<close>, and the catalog
  for \<^verbatim>\<open>linux\<close> is the eight steps apt dependencies, hosts file, git clone, virtualenv,
  environment variable, database, runserver alias, server launch, in this order.
\<close>

theorem catalog_linux:
  "get_steps ''linux'' ver =
     [AptDependenciesInstall, UpdateHostsFile, GitClone, VirtualEnv,
      ProductionEnvironmentVariable, SetupDatabase, RunServerAlias, RunServer] \<and>
   get_steps os_name ver = get_steps os_name ver' \<and>
   get_os_and_version (h\<lparr>sys_platform := ''linux2''\<rparr>) = Inr (''linux'', None)"
  by (simp add: get_steps_def get_os_and_version_def)

text \<open>
  C3. Skip precedence: a step listed in \<^verbatim>\<open>--skip\<close> never has \<^verbatim>\<open>setup()\<close> called and
  the run continues with the next step. The second half fails: the constructor and
  \<^verbatim>\<open>always_run()\<close> of a step run before the skip test. With
  \<^verbatim>\<open>--skip=GitClone,VirtualEnv\<close> on a machine where the project has not been cloned, the
  constructor of \<^verbatim>\<open>VirtualEnv\<close> changes into the project directory and raises
  \<^verbatim>\<open>OSError\<close>: the run ends at the skipped step and no later step is reached.
\<close>

theorem skipped_step_ends_run:
  "listed (display_name VirtualEnv) ''GitClone,VirtualEnv'' \<and>
   result (main lab_host [] ''GitClone,VirtualEnv'' False bare_world) =
     Inl (OSError ''/home/dev/projects/advocoders'') \<and>
   calls (main lab_host [] ''GitClone,VirtualEnv'' False bare_world) =
     [Instantiate AptDependenciesInstall, AlwaysRun AptDependenciesInstall,
      Probe AptDependenciesInstall,
      Instantiate UpdateHostsFile, AlwaysRun UpdateHostsFile, Probe UpdateHostsFile,
      Setup UpdateHostsFile, Probe UpdateHostsFile,
      Instantiate GitClone, AlwaysRun GitClone,
      Instantiate VirtualEnv]"
proof -
  have "listed (display_name VirtualEnv) ''GitClone,VirtualEnv''"
    by (simp add: listed_def)
  moreover have "result (main lab_host [] ''GitClone,VirtualEnv'' False bare_world) =
     Inl (OSError ''/home/dev/projects/advocoders'')"
    by code_simp
  moreover have "calls (main lab_host [] ''GitClone,VirtualEnv'' False bare_world) =
     [Instantiate AptDependenciesInstall, AlwaysRun AptDependenciesInstall,
      Probe AptDependenciesInstall,
      Instantiate UpdateHostsFile, AlwaysRun UpdateHostsFile, Probe UpdateHostsFile,
      Setup UpdateHostsFile, Probe UpdateHostsFile,
      Instantiate GitClone, AlwaysRun GitClone,
      Instantiate VirtualEnv]"
    by code_simp
  ultimately show ?thesis by (intro conjI)
qed

text \<open>
  C3, amended. A step whose name is listed in \<^verbatim>\<open>--skip\<close> never has its
  \<^verbatim>\<open>setup()\<close> called in the run, whatever its probe would say (the probe is not even
  evaluated); once the step is instantiated and its \<^verbatim>\<open>always_run()\<close> has returned, the loop
  goes on with the next step.
\<close>

theorem skip_precedence:
  assumes "listed (display_name c) skip_arg"
  shows "Setup c \<notin> set (calls (main h force_arg skip_arg quiet_arg w)) \<and>
    (skip opts = skip_arg \<and> init h opts c w = (Inr step, w1) \<and>
     always_run h step w1 = (Inr (), w2) \<longrightarrow>
       run_loop h opts (c # cs) w = after [Instantiate c, AlwaysRun c] (run_loop h opts cs w2))"
proof -
  from assms have p: "py_in (display_name c) skip_arg" by (rule listed_py_in)
  have "Setup c \<notin> set (calls (main h force_arg skip_arg quiet_arg w))"
    using p by (rule main_skipped_no_setup)
  moreover have "skip opts = skip_arg \<and> init h opts c w = (Inr step, w1) \<and>
     always_run h step w1 = (Inr (), w2) \<longrightarrow>
       run_loop h opts (c # cs) w = after [Instantiate c, AlwaysRun c] (run_loop h opts cs w2)"
    using p by (simp add: run_step_def)
  ultimately show ?thesis by blast
qed

text \<open>
  On the reference machine the hosts file lacks the entry, so a plain run sets the step
  up; with the step listed in \<^verbatim>\<open>--skip\<close> it does not.
\<close>

theorem skip_precedence_witness:
  "listed (display_name UpdateHostsFile) ''GitClone,UpdateHostsFile'' \<and>
   Setup UpdateHostsFile \<in>
     set (calls (run_loop lab_host (lab_options\<lparr>skip := [], force := []\<rparr>)
       [UpdateHostsFile] lab_world)) \<and>
   Setup UpdateHostsFile \<notin>
     set (calls (main lab_host [] ''GitClone,UpdateHostsFile'' False lab_world)) \<and>
   run_loop lab_host (lab_options\<lparr>skip := ''GitClone,UpdateHostsFile'', force := []\<rparr>)
       [UpdateHostsFile, GitClone] lab_world =
     after [Instantiate UpdateHostsFile, AlwaysRun UpdateHostsFile]
       (run_loop lab_host (lab_options\<lparr>skip := ''GitClone,UpdateHostsFile'', force := []\<rparr>)
          [GitClone] lab_world)"
proof -
  let ?o = "lab_options\<lparr>skip := ''GitClone,UpdateHostsFile'', force := []\<rparr>"
  let ?s = "(lab_step UpdateHostsFile)\<lparr>self_options := ?o\<rparr>"
  have l: "listed (display_name UpdateHostsFile) ''GitClone,UpdateHostsFile''"
    by (simp add: listed_def)
  have i: "init lab_host ?o UpdateHostsFile lab_world = (Inr ?s, lab_world)"
    by (rule lab_init_UpdateHostsFile)
  have a: "always_run lab_host ?s lab_world = (Inr (), lab_world)"
    by (simp add: always_run_def lab_step_def ret_def)
  note t = skip_precedence [OF l, of lab_host "[]" False lab_world ?o ?s lab_world lab_world
      "[GitClone]"]
  from t have 1: "Setup UpdateHostsFile \<notin>
      set (calls (main lab_host [] ''GitClone,UpdateHostsFile'' False lab_world))"
    by (rule conjunct1)
  have o: "skip ?o = ''GitClone,UpdateHostsFile''" by simp
  from t o i a have 2: "run_loop lab_host ?o [UpdateHostsFile, GitClone] lab_world =
      after [Instantiate UpdateHostsFile, AlwaysRun UpdateHostsFile]
        (run_loop lab_host ?o [GitClone] lab_world)"
    by blast
  from l lab_unskipped_UpdateHostsFile 1 2 show ?thesis by (intro conjI)
qed

text \<open>
  C10. Skip beats force: a step listed in both options is skipped after \<^verbatim>\<open>always_run()\<close>
  and the process does not terminate at that step. The last part fails: the constructor and
  \<^verbatim>\<open>always_run()\<close> run before the skip test. With \<^verbatim>\<open>--force=VirtualEnv\<close> and
  \<^verbatim>\<open>--skip=GitClone,VirtualEnv\<close> on a machine where the project has not been cloned, the
  constructor of \<^verbatim>\<open>VirtualEnv\<close> raises \<^verbatim>\<open>OSError\<close> and the process terminates at that
  step, with status 1.
\<close>

theorem skipped_forced_step_ends_run:
  "listed (display_name VirtualEnv) ''GitClone,VirtualEnv'' \<and>
   listed (display_name VirtualEnv) ''VirtualEnv'' \<and>
   result (main lab_host ''VirtualEnv'' ''GitClone,VirtualEnv'' False bare_world) =
     Inl (OSError ''/home/dev/projects/advocoders'') \<and>
   exit_status (Inl (OSError ''/home/dev/projects/advocoders'')) = 1 \<and>
   calls (main lab_host ''VirtualEnv'' ''GitClone,VirtualEnv'' False bare_world) =
     [Instantiate AptDependenciesInstall, AlwaysRun AptDependenciesInstall,
      Probe AptDependenciesInstall,
      Instantiate UpdateHostsFile, AlwaysRun UpdateHostsFile, Probe UpdateHostsFile,
      Setup UpdateHostsFile, Probe UpdateHostsFile,
      Instantiate GitClone, AlwaysRun GitClone,
      Instantiate VirtualEnv]"
proof -
  have "listed (display_name VirtualEnv) ''GitClone,VirtualEnv''"
    and "listed (display_name VirtualEnv) ''VirtualEnv''"
    by (simp_all add: listed_def)
  moreover have "result (main lab_host ''VirtualEnv'' ''GitClone,VirtualEnv'' False bare_world) =
     Inl (OSError ''/home/dev/projects/advocoders'')"
    by code_simp
  moreover have "exit_status (Inl (OSError ''/home/dev/projects/advocoders'')) = 1"
    by (simp add: exit_status_def)
  moreover have
    "calls (main lab_host ''VirtualEnv'' ''GitClone,VirtualEnv'' False bare_world) =
     [Instantiate AptDependenciesInstall, AlwaysRun AptDependenciesInstall,
      Probe AptDependenciesInstall,
      Instantiate UpdateHostsFile, AlwaysRun UpdateHostsFile, Probe UpdateHostsFile,
      Setup UpdateHostsFile, Probe UpdateHostsFile,
      Instantiate GitClone, AlwaysRun GitClone,
      Instantiate VirtualEnv]"
    by code_simp
  ultimately show ?thesis by (intro conjI)
qed

text \<open>
  C10, amended. A step whose name is listed in both options never has \<^verbatim>\<open>setup()\<close> called;
  once it is instantiated and its \<^verbatim>\<open>always_run()\<close> has returned, the loop goes on with the
  next step and the outcome of the run is the outcome of the remaining steps, so the exit of
  a forced step does not happen at it.
\<close>

theorem skip_beats_force:
  assumes "listed (display_name c) skip_arg" and "listed (display_name c) force_arg"
  shows "Setup c \<notin> set (calls (main h force_arg skip_arg quiet_arg w)) \<and>
    (skip opts = skip_arg \<and> force opts = force_arg \<and> init h opts c w = (Inr step, w1) \<and>
     always_run h step w1 = (Inr (), w2) \<longrightarrow>
       run_loop h opts (c # cs) w = after [Instantiate c, AlwaysRun c] (run_loop h opts cs w2) \<and>
       result (run_loop h opts (c # cs) w) = result (run_loop h opts cs w2))"
proof -
  from assms(1) have p: "py_in (display_name c) skip_arg" by (rule listed_py_in)
  have "Setup c \<notin> set (calls (main h force_arg skip_arg quiet_arg w))"
    using p by (rule main_skipped_no_setup)
  moreover have "skip opts = skip_arg \<and> force opts = force_arg \<and>
     init h opts c w = (Inr step, w1) \<and> always_run h step w1 = (Inr (), w2) \<longrightarrow>
       run_loop h opts (c # cs) w = after [Instantiate c, AlwaysRun c] (run_loop h opts cs w2) \<and>
       result (run_loop h opts (c # cs) w) = result (run_loop h opts cs w2)"
    using p by (simp add: run_step_def)
  ultimately show ?thesis by blast
qed

text \<open>
  On the reference machine: forced alone, the hosts-file step ends the run with status 1;
  forced and skipped, the run goes on to the next step.
\<close>

theorem skip_beats_force_witness:
  "listed (display_name UpdateHostsFile) ''UpdateHostsFile'' \<and>
   Setup UpdateHostsFile \<notin>
     set (calls (main lab_host ''UpdateHostsFile'' ''UpdateHostsFile'' False lab_world)) \<and>
   result (run_loop lab_host (lab_options\<lparr>skip := [], force := ''UpdateHostsFile''\<rparr>)
      [UpdateHostsFile, GitClone] lab_world) = Inl (SystemExit 1) \<and>
   run_loop lab_host (lab_options\<lparr>skip := ''UpdateHostsFile'', force := ''UpdateHostsFile''\<rparr>)
       [UpdateHostsFile, GitClone] lab_world =
     after [Instantiate UpdateHostsFile, AlwaysRun UpdateHostsFile]
       (run_loop lab_host (lab_options\<lparr>skip := ''UpdateHostsFile'', force := ''UpdateHostsFile''\<rparr>)
          [GitClone] lab_world)"
proof -
  let ?o = "lab_options\<lparr>skip := ''UpdateHostsFile'', force := ''UpdateHostsFile''\<rparr>"
  let ?s = "(lab_step UpdateHostsFile)\<lparr>self_options := ?o\<rparr>"
  have l: "listed (display_name UpdateHostsFile) ''UpdateHostsFile''"
    by (simp add: listed_def)
  have i: "init lab_host ?o UpdateHostsFile lab_world = (Inr ?s, lab_world)"
    by (rule lab_init_UpdateHostsFile)
  have a: "always_run lab_host ?s lab_world = (Inr (), lab_world)"
    by (simp add: always_run_def lab_step_def ret_def)
  note t = skip_beats_force [OF l l, of lab_host False lab_world ?o ?s lab_world lab_world
      "[GitClone]"]
  from t have 1: "Setup UpdateHostsFile \<notin>
      set (calls (main lab_host ''UpdateHostsFile'' ''UpdateHostsFile'' False lab_world))"
    by (rule conjunct1)
  have o: "skip ?o = ''UpdateHostsFile''" "force ?o = ''UpdateHostsFile''" by simp_all
  from t o i a have 2: "run_loop lab_host ?o [UpdateHostsFile, GitClone] lab_world =
      after [Instantiate UpdateHostsFile, AlwaysRun UpdateHostsFile]
        (run_loop lab_host ?o [GitClone] lab_world)"
    by blast
  from l 1 lab_forced_UpdateHostsFile 2 show ?thesis by (intro conjI)
qed

text \<open>
  C2. Force override, at the command line \<^verbatim>\<open>--force=VirtualEnv --skip=VirtualEnvInstall\<close>.
  \<^verbatim>\<open>VirtualEnv\<close> is one of the forced names and is not one of the skipped names, so the
  claim asks for its \<^verbatim>\<open>setup()\<close> to be called and for the run to end after it. The
  orchestrator tests \<^verbatim>\<open>'VirtualEnv' in 'VirtualEnvInstall'\<close>, which is true of the two
  strings, and skips the step: on every machine and in every state, the run never calls the
  \<^verbatim>\<open>setup()\<close> of \<^verbatim>\<open>VirtualEnv\<close>.
\<close>

theorem forced_step_skipped_by_substring:
  "listed (display_name VirtualEnv) ''VirtualEnv'' \<and>
   \<not> listed (display_name VirtualEnv) ''VirtualEnvInstall'' \<and>
   py_in (display_name VirtualEnv) ''VirtualEnvInstall'' \<and>
   Setup VirtualEnv \<notin> set (calls (main h ''VirtualEnv'' ''VirtualEnvInstall'' quiet_arg w))"
proof -
  have p: "py_in (display_name VirtualEnv) ''VirtualEnvInstall''"
    by (simp add: startswith_def)
  have "Setup VirtualEnv \<notin> set (calls (main h ''VirtualEnv'' ''VirtualEnvInstall'' quiet_arg w))"
    using p by (rule main_skipped_no_setup)
  with p show ?thesis by (simp add: listed_def)
qed

text \<open>
  C4. Probe totality, on a Mac without \<^verbatim>\<open>brew\<close>. The probe of \<^verbatim>\<open>HomebrewInstall\<close> runs
  \<^verbatim>\<open>brew\<close> inside \<^verbatim>\<open>try\<close> and answers \<open>False\<close>; the probe of
  \<^verbatim>\<open>BrewDependenciesInstall\<close> runs \<^verbatim>\<open>brew\<close> with no \<^verbatim>\<open>try\<close> around it, and the
  exception leaves the probe and ends the run (here with \<^verbatim>\<open>--skip=HomebrewInstall\<close>, so that
  the run reaches the step).
\<close>

theorem brew_dependencies_probe_raises:
  "already_satisfied no_brew_host (lab_step HomebrewInstall) lab_world = (Inr False, lab_world) \<and>
   already_satisfied no_brew_host (lab_step BrewDependenciesInstall) lab_world =
     (Inl (CommandNotFound ''brew''), lab_world) \<and>
   result (main no_brew_host [] ''HomebrewInstall'' False lab_world) =
     Inl (CommandNotFound ''brew'') \<and>
   last (calls (main no_brew_host [] ''HomebrewInstall'' False lab_world)) =
     Probe BrewDependenciesInstall"
proof -
  have 1: "already_satisfied no_brew_host (lab_step HomebrewInstall) lab_world =
      (Inr False, lab_world)"
    by (simp add: already_satisfied_def lab_step_def no_brew_host_def mac_host_def lab_host_def
        except_all_def bnd_def ret_def)
  have 2: "already_satisfied no_brew_host (lab_step BrewDependenciesInstall) lab_world =
      (Inl (CommandNotFound ''brew''), lab_world)"
    by (simp add: already_satisfied_def lab_step_def no_brew_host_def mac_host_def lab_host_def
        bnd_def)
  have 3: "result (main no_brew_host [] ''HomebrewInstall'' False lab_world) =
      Inl (CommandNotFound ''brew'')"
    by code_simp
  have 4: "last (calls (main no_brew_host [] ''HomebrewInstall'' False lab_world)) =
      Probe BrewDependenciesInstall"
    by code_simp
  from 1 2 3 4 show ?thesis by (intro conjI)
qed

text \<open>
  C5. Probe purity fails for \<^verbatim>\<open>VirtualEnv\<close>: when the virtualenv exists, its probe
  activates it in the running process before it lists the packages. On the reference
  machine the probe changes \<^verbatim>\<open>PATH\<close> in the process environment.
\<close>

theorem virtualenv_probe_changes_environment:
  "environ lab_world ''PATH'' = Some ''/usr/bin:/bin'' \<and>
   environ (snd (already_satisfied lab_host (lab_step VirtualEnv) lab_world)) ''PATH'' =
     Some ''/home/dev/projects/advocoders/virtualenv/bin:/usr/bin:/bin'' \<and>
   snd (already_satisfied lab_host (lab_step VirtualEnv) lab_world) \<noteq> lab_world"
proof -
  have "snd (already_satisfied lab_host (lab_step VirtualEnv) lab_world) \<noteq> lab_world"
  proof
    assume "snd (already_satisfied lab_host (lab_step VirtualEnv) lab_world) = lab_world"
    with lab_PATH_after_probe lab_PATH show False by simp
  qed
  with lab_PATH lab_PATH_after_probe show ?thesis by (intro conjI)
qed

text \<open>
  C5, amended. The probe of every class other than \<^verbatim>\<open>VirtualEnv\<close>, and the probe of
  \<^verbatim>\<open>VirtualEnv\<close> when the virtualenv is not there yet, leaves the state (file system,
  environment variables, working directory, output) as it found it, whether it returns or
  raises, on every host whose probe commands change nothing.
\<close>

theorem other_probes_leave_state:
  assumes "probe_commands_read_only h"
    and "step_class s \<noteq> VirtualEnv \<or> \<not> exists w (activate_this s)"
  shows "snd (already_satisfied h s w) = w"
proof (cases "step_class s = VirtualEnv")
  case False
  with keeps_state_probe [OF assms(1)] show ?thesis by (simp add: keeps_state_def)
next
  case True
  with assms(2) show ?thesis by (simp add: already_satisfied_def)
qed

text \<open>
  On the reference machine: the probe of the hosts-file step; and the probe of
  \<^verbatim>\<open>VirtualEnv\<close> where the project has not been cloned.
\<close>

theorem other_probes_leave_state_witness:
  "probe_commands_read_only lab_host \<and>
   step_class (lab_step UpdateHostsFile) \<noteq> VirtualEnv \<and>
   snd (already_satisfied lab_host (lab_step UpdateHostsFile) lab_world) = lab_world \<and>
   step_class (lab_step VirtualEnv) = VirtualEnv \<and>
   \<not> exists bare_world (activate_this (lab_step VirtualEnv)) \<and>
   snd (already_satisfied lab_host (lab_step VirtualEnv) bare_world) = bare_world"
proof -
  have c: "step_class (lab_step UpdateHostsFile) \<noteq> VirtualEnv"
    and v: "step_class (lab_step VirtualEnv) = VirtualEnv"
    by (simp_all add: lab_step_def)
  have d: "\<not> exists bare_world (activate_this (lab_step VirtualEnv))"
    by (simp add: lab_step_def exists_def resolve_def bare_world_def)
  from other_probes_leave_state [OF lab_probe_commands_read_only disjI1, OF c]
    other_probes_leave_state [OF lab_probe_commands_read_only disjI2, OF d]
    lab_probe_commands_read_only c v d
  show ?thesis by (intro conjI)
qed

text \<open>
  C7. Unsupported platform: the whole run does change the file system. Before
  \<^verbatim>\<open>run_steps\<close> looks at the platform, the main block has created a temporary directory
  and changed into it.
\<close>

theorem temp_directory_created_on_unsupported_platform:
  "fs lab_world ''/tmp/tmpQ3x9Zk'' = None \<and>
   result (main bsd_host [] [] False lab_world) = Inl (Exception ''Unsupported OS: freebsd9'') \<and>
   calls (main bsd_host [] [] False lab_world) = [] \<and>
   fs (final (main bsd_host [] [] False lab_world)) ''/tmp/tmpQ3x9Zk'' = Some Dir \<and>
   cwd (final (main bsd_host [] [] False lab_world)) = ''/tmp/tmpQ3x9Zk''"
proof -
  have 1: "fs lab_world ''/tmp/tmpQ3x9Zk'' = None"
    by (simp add: lab_world_def lab_files_def)
  have 2: "result (main bsd_host [] [] False lab_world) =
      Inl (Exception ''Unsupported OS: freebsd9'')"
    by code_simp
  have 3: "calls (main bsd_host [] [] False lab_world) = []"
    by code_simp
  have 4: "fs (final (main bsd_host [] [] False lab_world)) ''/tmp/tmpQ3x9Zk'' = Some Dir"
    by code_simp
  have 5: "cwd (final (main bsd_host [] [] False lab_world)) = ''/tmp/tmpQ3x9Zk''"
    by code_simp
  from 1 2 3 4 5 show ?thesis by (intro conjI)
qed

text \<open>
  C7, amended. On a platform that is neither \<^verbatim>\<open>darwin\<close> nor \<^verbatim>\<open>linux2\<close>,
  \<^verbatim>\<open>run_steps\<close> raises the unsupported-platform exception with no step instantiated and
  the state untouched, and the exit status is 1; no run of the main block instantiates a
  step, and when its startup (temporary directory, \<^verbatim>\<open>sh\<close> import, \<^verbatim>\<open>chmod\<close>) returns,
  the state at exit is the one the startup left.
\<close>

theorem unsupported_platform:
  assumes "sys_platform h \<noteq> ''darwin''" and "sys_platform h \<noteq> ''linux2''"
  shows "run_steps h temp_dir opts w =
           stop (Exception (''Unsupported OS: '' @ sys_platform h)) [] w \<and>
         exit_status (result (run_steps h temp_dir opts w)) = 1 \<and>
         calls (main h force_arg skip_arg quiet_arg w0) = [] \<and>
         (make_temp_directory h w0 = (Inr temp_dir, w1) \<and>
          load_this_script_deps h w1 = (Inr (), w2) \<and>
          sh_call h Sh ''chmod'' [S ''777'', S temp_dir] [] w2 = (Inr out, w3) \<longrightarrow>
            main h force_arg skip_arg quiet_arg w0 =
              stop (Exception (''Unsupported OS: '' @ sys_platform h)) [] w3)"
proof -
  have r: "\<And>t opts w. run_steps h t opts w =
      stop (Exception (''Unsupported OS: '' @ sys_platform h)) [] w"
    using assms by (simp add: run_steps_def get_os_and_version_def)
  have e: "exit_status (result (run_steps h temp_dir opts w)) = 1"
    by (simp add: r exit_status_def)
  have c: "calls (main h force_arg skip_arg quiet_arg w0) = []"
    by (simp add: main_def Let_def r split: prod.splits sum.splits)
  have m: "make_temp_directory h w0 = (Inr temp_dir, w1) \<and>
          load_this_script_deps h w1 = (Inr (), w2) \<and>
          sh_call h Sh ''chmod'' [S ''777'', S temp_dir] [] w2 = (Inr out, w3) \<longrightarrow>
            main h force_arg skip_arg quiet_arg w0 =
              stop (Exception (''Unsupported OS: '' @ sys_platform h)) [] w3"
    by (simp add: main_def Let_def r)
  from r e c m show ?thesis by blast
qed

theorem unsupported_platform_witness:
  "sys_platform bsd_host \<noteq> ''darwin'' \<and> sys_platform bsd_host \<noteq> ''linux2'' \<and>
   exit_status (result (run_steps bsd_host ''/tmp/tmpQ3x9Zk'' lab_options lab_world)) = 1 \<and>
   main bsd_host [] [] False lab_world =
     stop (Exception (''Unsupported OS: '' @ sys_platform bsd_host)) []
       (lab_world\<lparr>fs := (fs lab_world)(''/tmp/tmpQ3x9Zk'' \<mapsto> Dir), cwd := ''/tmp/tmpQ3x9Zk''\<rparr>)"
proof -
  have p: "sys_platform bsd_host \<noteq> ''darwin''" "sys_platform bsd_host \<noteq> ''linux2''"
    by (simp_all add: bsd_host_def lab_host_def)
  note t = unsupported_platform [OF p, of "''/tmp/tmpQ3x9Zk''" lab_options lab_world "[]" "[]"
      False lab_world
      "lab_world\<lparr>fs := (fs lab_world)(''/tmp/tmpQ3x9Zk'' \<mapsto> Dir), cwd := ''/tmp/tmpQ3x9Zk''\<rparr>"
      "lab_world\<lparr>fs := (fs lab_world)(''/tmp/tmpQ3x9Zk'' \<mapsto> Dir), cwd := ''/tmp/tmpQ3x9Zk''\<rparr>"
      "''ok'' @ nl"
      "lab_world\<lparr>fs := (fs lab_world)(''/tmp/tmpQ3x9Zk'' \<mapsto> Dir), cwd := ''/tmp/tmpQ3x9Zk''\<rparr>"]
  from t have 1: "exit_status (result (run_steps bsd_host ''/tmp/tmpQ3x9Zk'' lab_options lab_world)) = 1"
    by blast
  from t bsd_startup have 2: "main bsd_host [] [] False lab_world =
     stop (Exception (''Unsupported OS: '' @ sys_platform bsd_host)) []
       (lab_world\<lparr>fs := (fs lab_world)(''/tmp/tmpQ3x9Zk'' \<mapsto> Dir), cwd := ''/tmp/tmpQ3x9Zk''\<rparr>)"
    by blast
  from p 1 2 show ?thesis by (intro conjI)
qed

text \<open>
  C8. The entry is not appended: \<^verbatim>\<open>UpdateHostsFile.setup\<close> on the reference machine
  leaves the new line first and the old contents after it.
\<close>

theorem hosts_entry_not_appended:
  "fs lab_world ''/etc/hosts'' = Some (File (''127.0.0.1 localhost'' @ nl)) \<and>
   fs (snd (setup_step lab_host (lab_step UpdateHostsFile) lab_world)) ''/etc/hosts'' =
     Some (File (''127.0.0.1 advocoders.localhost.com'' @ nl @ ''127.0.0.1 localhost'' @ nl)) \<and>
   fs (snd (setup_step lab_host (lab_step UpdateHostsFile) lab_world)) ''/etc/hosts'' \<noteq>
     Some (File (''127.0.0.1 localhost'' @ nl @ ''127.0.0.1 advocoders.localhost.com'' @ nl))"
proof -
  have 1: "fs lab_world ''/etc/hosts'' = Some (File (''127.0.0.1 localhost'' @ nl))"
    by (simp add: lab_world_def lab_files_def)
  have 2: "fs (snd (setup_step lab_host (lab_step UpdateHostsFile) lab_world)) ''/etc/hosts'' =
     Some (File (''127.0.0.1 advocoders.localhost.com'' @ nl @ ''127.0.0.1 localhost'' @ nl))"
    by code_simp
  have 3: "fs (snd (setup_step lab_host (lab_step UpdateHostsFile) lab_world)) ''/etc/hosts'' \<noteq>
     Some (File (''127.0.0.1 localhost'' @ nl @ ''127.0.0.1 advocoders.localhost.com'' @ nl))"
    by code_simp
  from 1 2 3 show ?thesis by (intro conjI)
qed

text \<open>
  C8, amended. \<^verbatim>\<open>prepend_file\<close> on an existing, writable file leaves the entry, a newline
  and then the old contents, whatever they are, and changes no other path; the
  \<^verbatim>\<open>setup()\<close> of the hosts-file step, of the environment-variable step and of the alias
  step are each one call of \<^verbatim>\<open>prepend_file\<close>.
\<close>

theorem file_entries_are_prepended:
  assumes "fs w (resolve w path) = Some (File old)" and "resolve w path \<notin> write_protected w"
  shows "prepend_file path entry w =
           (Inr (), w\<lparr>fs := (fs w)(resolve w path \<mapsto> File (entry @ nl @ old))\<rparr>) \<and>
     (step_class s = UpdateHostsFile \<longrightarrow>
        setup_step h s = prepend_file ''/etc/hosts'' ''127.0.0.1 advocoders.localhost.com'') \<and>
     (step_class s = ProductionEnvironmentVariable \<and>
      bash_config_file (self_options s) = Inr path \<longrightarrow>
        setup_step h s = prepend_file path ''export PRODUCTION=False'') \<and>
     (step_class s = RunServerAlias \<and> bash_config_file (self_options s) = Inr path \<longrightarrow>
        setup_step h s = prepend_file path
          (''alias runserver='' @ dq @ ''cd '' @ project_dir (self_options s) @
           ''; source ../virtualenv/bin/activate; ./manage.py runserver 8001'' @ dq))"
  using prepend_file_result [OF assms]
  by (simp add: setup_step_def HOST_NAMES_def variable_def var_value_def)

theorem file_entries_are_prepended_witness:
  "fs lab_world (resolve lab_world ''/home/dev/.bashrc'') = Some (File (''# ~/.bashrc'' @ nl)) \<and>
   resolve lab_world ''/home/dev/.bashrc'' \<notin> write_protected lab_world \<and>
   bash_config_file (self_options (lab_step ProductionEnvironmentVariable)) =
     Inr ''/home/dev/.bashrc'' \<and>
   setup_step lab_host (lab_step ProductionEnvironmentVariable) lab_world =
     (Inr (), lab_world\<lparr>fs := (fs lab_world)(resolve lab_world ''/home/dev/.bashrc'' \<mapsto>
        File (''export PRODUCTION=False'' @ nl @ ''# ~/.bashrc'' @ nl))\<rparr>)"
proof -
  have 1: "fs lab_world (resolve lab_world ''/home/dev/.bashrc'') =
      Some (File (''# ~/.bashrc'' @ nl))"
    by (simp add: lab_world_def lab_files_def resolve_def startswith_def)
  have 2: "resolve lab_world ''/home/dev/.bashrc'' \<notin> write_protected lab_world"
    by (simp add: lab_world_def)
  have 3: "bash_config_file (self_options (lab_step ProductionEnvironmentVariable)) =
     Inr ''/home/dev/.bashrc''"
    by code_simp
  have 4: "step_class (lab_step ProductionEnvironmentVariable) = ProductionEnvironmentVariable"
    by (simp add: lab_step_def)
  from file_entries_are_prepended [OF 1 2, of "''export PRODUCTION=False''"
      "lab_step ProductionEnvironmentVariable" lab_host] 3 4
  have 5: "setup_step lab_host (lab_step ProductionEnvironmentVariable) lab_world =
     (Inr (), lab_world\<lparr>fs := (fs lab_world)(resolve lab_world ''/home/dev/.bashrc'' \<mapsto>
        File (''export PRODUCTION=False'' @ nl @ ''# ~/.bashrc'' @ nl))\<rparr>)"
    by simp
  from 1 2 3 5 show ?thesis by (intro conjI)
qed

text \<open>
  C6. A failed \<^verbatim>\<open>setup()\<close> of a step that is not forced, at the command line
  \<^verbatim>\<open>--force=VirtualEnvInstall\<close> on Linux, where \<^verbatim>\<open>pip install\<close> fails.
  \<^verbatim>\<open>VirtualEnv\<close> is not one of the forced names, but
  \<^verbatim>\<open>'VirtualEnv' in 'VirtualEnvInstall'\<close> is true: after the captured error output is
  printed the run exits at once, with no second probe and no failure report. Without
  \<^verbatim>\<open>--force\<close> the same run probes again and reports the failure.
\<close>

theorem unforced_step_exits_without_recheck:
  "\<not> listed (display_name VirtualEnv) ''VirtualEnvInstall'' \<and>
   py_in (display_name VirtualEnv) ''VirtualEnvInstall'' \<and>
   calls (main offline_host ''VirtualEnvInstall'' [] False stale_world) =
     [Instantiate AptDependenciesInstall, AlwaysRun AptDependenciesInstall,
      Probe AptDependenciesInstall,
      Instantiate UpdateHostsFile, AlwaysRun UpdateHostsFile, Probe UpdateHostsFile,
      Setup UpdateHostsFile, Probe UpdateHostsFile,
      Instantiate GitClone, AlwaysRun GitClone, Probe GitClone,
      Instantiate VirtualEnv, AlwaysRun VirtualEnv, Probe VirtualEnv, Setup VirtualEnv] \<and>
   result (main offline_host ''VirtualEnvInstall'' [] False stale_world) = Inl (SystemExit 1) \<and>
   stdout (final (main offline_host ''VirtualEnvInstall'' [] False stale_world)) =
     [''Updating hosts file...'',
      ''Setting up a virtualenv and installing python dependencies...'',
      ''Could not fetch URL https://pypi.python.org/simple/''] \<and>
   stdout (final (main offline_host [] [] False stale_world)) =
     [''Updating hosts file...'',
      ''Setting up a virtualenv and installing python dependencies...'',
      ''Could not fetch URL https://pypi.python.org/simple/'',
      ''ERROR: VirtualEnv failed.'']"
proof -
  have 1: "\<not> listed (display_name VirtualEnv) ''VirtualEnvInstall''"
    by (simp add: listed_def)
  have 2: "py_in (display_name VirtualEnv) ''VirtualEnvInstall''"
    by (simp add: startswith_def)
  from 1 2 offline_forced_run offline_forced_result offline_forced_stdout offline_plain_stdout
  show ?thesis by (intro conjI)
qed




end
